theory Spec2Isabelle
  imports Main "HOL-Library.Word"
begin

unbundle bit_operations_syntax

section \<open>On-stack replacement: the patchpoint helper (vm/jithelpers.cpp)\<close>

text \<open>
  Addresses, code pointers and register values are 64-bit words (\<open>PCODE\<close>,
  \<open>UINT_PTR\<close>, \<open>TADDR\<close>); \<open>DWORD\<close> and \<open>LONG\<close> are 32-bit words. \<open>NULL\<close> is 0.
\<close>

type_synonym PCODE = "64 word"
type_synonym DWORD = "32 word"

subsection \<open>The transition performed by \<open>JIT_PatchpointWorkerWorkerWithPolicy\<close>\<close>

text \<open>
  The \<open>CONTEXT\<close> record, reduced to the registers the helper reads or writes through
  \<open>GetIP\<close>/\<open>SetIP\<close>, \<open>GetSP\<close>/\<open>SetSP\<close>, \<open>GetFP\<close>, \<open>GetSSP\<close>/\<open>SetSSP\<close> and
  \<open>pFrameContext->Rbp\<close>. \<open>Fp\<close> is the frame pointer register that \<open>GetFP\<close> reads
  (\<open>Rbp\<close> on AMD64). \<open>OtherRegs\<close> stands for every register the helper never touches.
\<close>

record CONTEXT =
  Ip :: "64 word"
  Sp :: "64 word"
  Fp :: "64 word"
  Ssp :: "64 word"
  OtherRegs :: "64 word list"

text \<open>The build target: the preprocessor symbols the helper and the unwinder test.\<close>

record target =
  TARGET_AMD64 :: bool
  TARGET_WINDOWS :: bool
  DEBUG_BUILD :: bool

text \<open>
  What a policy function hands back to the helper: an OSR code address (\<open>NULL\<close> for
  "keep running the original code"), or no return at all because it went through
  \<open>EEPOLICY_HANDLE_FATAL_ERROR\<close>.
\<close>

datatype policy_result = PolicyReturns PCODE | PolicyFatal

text \<open>
  External calls made by the helper. Each of them may overwrite the calling thread's
  last-error value; \<open>LastError_after\<close> of the environment says with what.
\<close>

datatype extcall =
    Call_Policy
  | Call_UnhijackThread
  | Call_InitializeContext
  | Call_RtlCaptureContext
  | Call_VirtualUnwindToFirstManagedCallFrame
  | Call_RtlVirtualUnwind

record osr_env =
  PatchpointRequiredPolicy_result :: policy_result
  PatchpointOptimizationPolicy_result :: policy_result
  LastError_after :: "extcall \<Rightarrow> DWORD \<Rightarrow> DWORD"
  RtlCaptureContext :: CONTEXT
  AreShadowStacksEnabled :: bool
  rdsspq :: "64 word"
  IsManagedCode :: "PCODE \<Rightarrow> bool"
  IsIPInWriteBarrierCodeCopy :: "PCODE \<Rightarrow> bool"
  AdjustWriteBarrierIP :: "PCODE \<Rightarrow> PCODE"
  VirtualUnwindCallFrame :: "CONTEXT \<Rightarrow> CONTEXT"
  AdjustContextForVirtualStub :: "CONTEXT \<Rightarrow> CONTEXT option"
  PAL_VirtualUnwind :: "CONTEXT \<Rightarrow> CONTEXT option"
  g_hostingApiReturnAddress :: PCODE
  RtlVirtualUnwind :: "CONTEXT \<Rightarrow> CONTEXT"

text \<open>
  \<open>Thread::VirtualUnwindToFirstManagedCallFrame\<close> (vm/stackwalk.cpp, lines 671-721).
  The loop unwinds until the control PC is managed code. \<open>Inl ()\<close> is the fatal exit
  after a failed \<open>PAL_VirtualUnwind\<close>; \<open>Inr (pc, ctx)\<close> is the returned control PC
  with the updated context. \<open>VirtualUnwindCallFrame\<close> returns the \<open>Ip\<close> of the context
  it leaves behind on every path of its source, so only the context is taken from the
  environment. The loop has no bound in the source: not returning is \<open>None\<close>.
\<close>

partial_function (option) VirtualUnwindToFirstManagedCallFrame_loop ::
  "target \<Rightarrow> osr_env \<Rightarrow> PCODE \<Rightarrow> CONTEXT \<Rightarrow> (unit + PCODE \<times> CONTEXT) option"
where
  "VirtualUnwindToFirstManagedCallFrame_loop tgt env uControlPc ctx =
    (if IsManagedCode env uControlPc then Some (Inr (uControlPc, ctx))
     else
       let uControlPc1 =
             (if IsIPInWriteBarrierCodeCopy env uControlPc
              then AdjustWriteBarrierIP env uControlPc else uControlPc);
           ctx1 =
             (if IsIPInWriteBarrierCodeCopy env uControlPc
              then ctx\<lparr>Ip := uControlPc1\<rparr> else ctx)
       in
       if TARGET_WINDOWS tgt then
         (let ctx2 = VirtualUnwindCallFrame env ctx1
          in VirtualUnwindToFirstManagedCallFrame_loop tgt env (Ip ctx2) ctx2)
       else
         (case AdjustContextForVirtualStub env ctx1 of
            Some ctx2 \<Rightarrow> Some (Inr (Ip ctx2, ctx2))
          | None \<Rightarrow>
             (case PAL_VirtualUnwind env ctx1 of
                None \<Rightarrow> Some (Inl ())
              | Some ctx2 \<Rightarrow>
                  if Ip ctx2 = 0 \<or> Ip ctx2 = g_hostingApiReturnAddress env
                  then Some (Inr (0, ctx2))
                  else VirtualUnwindToFirstManagedCallFrame_loop tgt env (Ip ctx2) ctx2)))"

definition VirtualUnwindToFirstManagedCallFrame ::
  "target \<Rightarrow> osr_env \<Rightarrow> CONTEXT \<Rightarrow> (unit + PCODE \<times> CONTEXT) option"
where
  "VirtualUnwindToFirstManagedCallFrame tgt env ctx =
     VirtualUnwindToFirstManagedCallFrame_loop tgt env (Ip ctx) ctx"

text \<open>
  How one invocation of the helper ends. \<open>Returned e\<close>: it returns to the original
  method through \<open>DONE\<close>, leaving \<open>e\<close> as the thread's last error.
  \<open>Transitioned ctx e\<close>: it calls \<open>ClrRestoreNonvolatileContext ctx\<close>, which does not
  return, with \<open>e\<close> as the thread's last error at that moment. \<open>FatalError\<close>:
  \<open>EEPOLICY_HANDLE_FATAL_ERROR\<close>. \<open>AssertionFailed\<close>: an \<open>_ASSERTE\<close> of a debug build.
\<close>

datatype worker_outcome =
    Returned DWORD
  | Transitioned CONTEXT DWORD
  | FatalError
  | AssertionFailed

definition SetLastError :: "DWORD \<Rightarrow> DWORD \<Rightarrow> DWORD" where
  "SetLastError dwErrCode lastError = dwErrCode"

text \<open>
  The context the helper captures for its own frame (lines 1721-1760):
  \<open>RtlCaptureContext\<close>, with the shadow stack pointer added on Windows AMD64 when
  shadow stacks are enabled.
\<close>

definition CapturedContext :: "target \<Rightarrow> osr_env \<Rightarrow> CONTEXT" where
  "CapturedContext tgt env =
     (if TARGET_WINDOWS tgt \<and> TARGET_AMD64 tgt \<and> AreShadowStacksEnabled env
      then (RtlCaptureContext env)\<lparr>Ssp := rdsspq env\<rparr> else RtlCaptureContext env)"

text \<open>
  The part of the helper after the policy has produced OSR code (lines 1710-1829).
  \<open>lastError\<close> is the thread's last-error value when this part starts.
\<close>

definition PatchpointTransition ::
  "target \<Rightarrow> osr_env \<Rightarrow> PCODE \<Rightarrow> PCODE \<Rightarrow> DWORD \<Rightarrow> DWORD \<Rightarrow> worker_outcome option"
where
  "PatchpointTransition tgt env ip osrMethodCode dwLastError lastError =
    (let le1 = LastError_after env Call_UnhijackThread lastError;
         le2 = (if TARGET_WINDOWS tgt \<and> TARGET_AMD64 tgt
                then LastError_after env Call_InitializeContext le1 else le1);
         ctx0' = CapturedContext tgt env;
         le3 = LastError_after env Call_RtlCaptureContext le2
     in
     case VirtualUnwindToFirstManagedCallFrame tgt env ctx0' of
       None \<Rightarrow> None
     | Some (Inl _) \<Rightarrow> Some FatalError
     | Some (Inr (_, ctx1)) \<Rightarrow>
        (let le4 = LastError_after env Call_VirtualUnwindToFirstManagedCallFrame le3;
             currentSP = Sp ctx1;
             currentFP = Fp ctx1
         in
         if ip \<noteq> Ip ctx1 then Some FatalError
         else
           (let ctx2 = RtlVirtualUnwind env ctx1;
                le5 = LastError_after env Call_RtlVirtualUnwind le4
            in
            if TARGET_AMD64 tgt \<and> DEBUG_BUILD tgt \<and> currentSP AND 15 \<noteq> 0
            then Some AssertionFailed
            else
              (let currentSP' = (if TARGET_AMD64 tgt then currentSP - 8 else currentSP);
                   ctx3 = (if TARGET_AMD64 tgt \<and> TARGET_WINDOWS tgt \<and> Ssp ctx2 \<noteq> 0
                           then ctx2\<lparr>Ssp := Ssp ctx2 - 8\<rparr> else ctx2);
                   ctx4 = (if TARGET_AMD64 tgt then ctx3\<lparr>Fp := currentFP\<rparr> else ctx3);
                   ctx5 = ctx4\<lparr>Sp := currentSP'\<rparr>;
                   ctx6 = ctx5\<lparr>Ip := osrMethodCode\<rparr>;
                   le6 = SetLastError dwLastError le5
               in Some (Transitioned ctx6 le6)))))"

text \<open>
  \<open>JIT_PatchpointWorkerWorkerWithPolicy\<close> (lines 1658-1833). \<open>ip\<close> is the helper's
  return address read from the transition block, \<open>counter\<close> the first argument register
  (a pointer; \<open>NULL\<close> selects the required policy), \<open>lastError\<close> the thread's last
  error on entry.
\<close>

definition JIT_PatchpointWorkerWorkerWithPolicy ::
  "target \<Rightarrow> osr_env \<Rightarrow> PCODE \<Rightarrow> 64 word \<Rightarrow> DWORD \<Rightarrow> worker_outcome option"
where
  "JIT_PatchpointWorkerWorkerWithPolicy tgt env ip counter lastError =
    (let dwLastError = lastError;
         patchpointMustFindOptimizedCode = (counter = 0);
         policy = (if patchpointMustFindOptimizedCode
                   then PatchpointRequiredPolicy_result env
                   else PatchpointOptimizationPolicy_result env);
         le1 = LastError_after env Call_Policy lastError
     in
     case policy of
       PolicyFatal \<Rightarrow> Some FatalError
     | PolicyReturns osrMethodCode \<Rightarrow>
         if osrMethodCode = 0 then
           (if DEBUG_BUILD tgt \<and> patchpointMustFindOptimizedCode then Some AssertionFailed
            else Some (Returned (SetLastError dwLastError le1)))
         else PatchpointTransition tgt env ip osrMethodCode dwLastError le1)"

subsection \<open>The two patchpoint policies under concurrent hits\<close>

text \<open>
  The per-patchpoint record (\<open>PerPatchpointInfo\<close>), shared by every thread that hits
  the patchpoint.
\<close>

record PerPatchpointInfo =
  m_osrMethodCode :: PCODE
  m_patchpointCount :: "32 word"
  m_flags :: "32 word"
  m_patchpointId :: int

text \<open>
  Modelled from the spec: the values of \<open>PerPatchpointInfo::patchpoint_triggered\<close> and
  \<open>PerPatchpointInfo::patchpoint_invalid\<close> are declared in onstackreplacement.h, which
  is not among the sources. The spec describes "a flags word (triggered / invalid)"; they
  are taken as two distinct bits of \<open>m_flags\<close>.
\<close>

definition patchpoint_triggered :: "32 word" where
  "patchpoint_triggered = 1"

definition patchpoint_invalid :: "32 word" where
  "patchpoint_invalid = 2"

text \<open>The configuration values the optimizing policy reads from \<open>g_pConfig\<close>.\<close>

record osr_config =
  OSR_CounterBump :: "32 word"
  OSR_HitLimit :: "32 word"
  OSR_LowId :: int
  OSR_HighId :: int
  CHECKED_BUILD :: bool

text \<open>
  The policies run on several threads at once and communicate only through the shared
  record, so each is modelled as a sequence of atomic steps: one step makes at most one
  access to the shared record (a read, a write, or one interlocked operation), and steps
  of different threads interleave in any order. A program point names the step a thread
  takes next; the comment gives the source lines of jithelpers.cpp the step covers.
\<close>

datatype pp_pc =
    Idle                   \<comment> \<open>not inside the helper\<close>
  | Opt_Entry              \<comment> \<open>1352-1372: read \<open>m_osrMethodCode\<close>, reset the counter\<close>
  | Opt_CheckInvalid       \<comment> \<open>1378-1386: read \<open>m_flags\<close>, test \<open>patchpoint_invalid\<close>\<close>
  | Opt_HitCount           \<comment> \<open>1399-1449: \<open>InterlockedIncrement\<close> of the hit count\<close>
  | Opt_ReadFlags          \<comment> \<open>1452-1459: read \<open>m_flags\<close>, test \<open>patchpoint_triggered\<close>\<close>
  | Opt_CompareExchange    \<comment> \<open>1460-1466: \<open>InterlockedCompareExchange\<close> on \<open>m_flags\<close>\<close>
  | Opt_RereadCode         \<comment> \<open>1484-1485: read \<open>m_osrMethodCode\<close> again\<close>
  | Opt_Jit                \<comment> \<open>1504-1507: \<open>JitPatchpointWorker\<close>\<close>
  | Opt_MarkInvalid        \<comment> \<open>1513: \<open>InterlockedOr\<close> of \<open>patchpoint_invalid\<close>\<close>
  | Opt_Publish            \<comment> \<open>1517-1518: write \<open>m_osrMethodCode\<close>\<close>
  | Req_Entry              \<comment> \<open>1539-1552: read \<open>m_flags\<close>, test \<open>patchpoint_invalid\<close>\<close>
  | Req_LoopTest           \<comment> \<open>1572: read \<open>m_osrMethodCode\<close>, the loop condition\<close>
  | Req_LoopCheckInvalid   \<comment> \<open>1576-1581: read \<open>m_flags\<close>, test \<open>patchpoint_invalid\<close>\<close>
  | Req_ReadFlags          \<comment> \<open>1585-1591: read \<open>m_flags\<close>, test \<open>patchpoint_triggered\<close>\<close>
  | Req_RereadFlags        \<comment> \<open>1595: read \<open>m_flags\<close> again for \<open>newFlags\<close>\<close>
  | Req_CompareExchange    \<comment> \<open>1596-1603: \<open>InterlockedCompareExchange\<close> on \<open>m_flags\<close>\<close>
  | Req_Jit                \<comment> \<open>1613-1618: \<open>JitPatchpointWorker\<close>\<close>
  | Req_MarkInvalid        \<comment> \<open>1622-1623: \<open>InterlockedOr\<close> of \<open>patchpoint_invalid\<close>, then fatal\<close>
  | Req_Publish            \<comment> \<open>1628-1630: write \<open>m_osrMethodCode\<close>\<close>
  | Req_Return             \<comment> \<open>1640-1643: read \<open>m_osrMethodCode\<close> and return it\<close>
  | PolicyDone policy_result  \<comment> \<open>the policy has returned to the helper, or has gone fatal\<close>

text \<open>
  The local variables of one thread inside a policy. \<open>mustFind\<close> is the helper's
  \<open>patchpointMustFindOptimizedCode\<close> (\<open>counter == NULL\<close>): it selects the policy.
\<close>

record pp_thread =
  point :: pp_pc
  mustFind :: bool
  osrMethodCode :: PCODE
  newMethodCode :: PCODE
  oldFlags :: "32 word"
  newFlags :: "32 word"
  isNewMethod :: bool
  counterCell :: "32 word"
  hitCount :: "32 word"
  backoffs :: "32 word"

definition policy_returns :: "PCODE \<Rightarrow> pp_thread \<Rightarrow> pp_thread" where
  "policy_returns code th = th\<lparr>point := PolicyDone (PolicyReturns code)\<rparr>"

definition policy_fatal :: "pp_thread \<Rightarrow> pp_thread" where
  "policy_fatal th = th\<lparr>point := PolicyDone PolicyFatal\<rparr>"

text \<open>
  One atomic step of a thread. \<open>jit\<close> is what \<open>JitPatchpointWorker\<close> returns if this
  step is the one that calls it (\<open>NULL\<close> when the OSR method cannot be created).
\<close>

definition policy_step ::
  "osr_config \<Rightarrow> PCODE \<Rightarrow> PerPatchpointInfo \<Rightarrow> pp_thread \<Rightarrow> PerPatchpointInfo \<times> pp_thread"
where
  "policy_step cfg jit pp th =
    (case point th of
       Idle \<Rightarrow> (pp, th)
     | PolicyDone r \<Rightarrow> (pp, th)
     | Opt_Entry \<Rightarrow>
         (pp, th\<lparr>osrMethodCode := m_osrMethodCode pp, isNewMethod := False,
                 counterCell := OSR_CounterBump cfg, point := Opt_CheckInvalid\<rparr>)
     | Opt_CheckInvalid \<Rightarrow>
         if m_flags pp AND patchpoint_invalid = patchpoint_invalid
         then (pp, policy_returns 0 th)
         else if osrMethodCode th = 0 then (pp, th\<lparr>point := Opt_HitCount\<rparr>)
         else (pp, policy_returns (osrMethodCode th) th)
     | Opt_HitCount \<Rightarrow>
         if CHECKED_BUILD cfg \<and>
            (m_patchpointId pp < OSR_LowId cfg \<or> m_patchpointId pp > OSR_HighId cfg)
         then (pp, policy_returns 0 th)
         else
           (let hc = m_patchpointCount pp + 1;
                pp' = pp\<lparr>m_patchpointCount := hc\<rparr>
            in if sint hc < sint (OSR_HitLimit cfg)
               then (pp', policy_returns 0 (th\<lparr>hitCount := hc\<rparr>))
               else (pp', th\<lparr>hitCount := hc, point := Opt_ReadFlags\<rparr>))
     | Opt_ReadFlags \<Rightarrow>
         (let old = m_flags pp
          in if old AND patchpoint_triggered = patchpoint_triggered
             then (pp, policy_returns 0 (th\<lparr>oldFlags := old\<rparr>))
             else (pp, th\<lparr>oldFlags := old, newFlags := old OR patchpoint_triggered,
                           point := Opt_CompareExchange\<rparr>))
     | Opt_CompareExchange \<Rightarrow>
         if m_flags pp = oldFlags th
         then (pp\<lparr>m_flags := newFlags th\<rparr>, th\<lparr>point := Opt_RereadCode\<rparr>)
         else (pp, policy_returns 0 th)
     | Opt_RereadCode \<Rightarrow>
         if m_osrMethodCode pp = 0
         then (pp, th\<lparr>osrMethodCode := m_osrMethodCode pp, point := Opt_Jit\<rparr>)
         else (pp, policy_returns (m_osrMethodCode pp) (th\<lparr>osrMethodCode := m_osrMethodCode pp\<rparr>))
     | Opt_Jit \<Rightarrow>
         if jit = 0 then (pp, th\<lparr>osrMethodCode := jit, point := Opt_MarkInvalid\<rparr>)
         else (pp, th\<lparr>osrMethodCode := jit, point := Opt_Publish\<rparr>)
     | Opt_MarkInvalid \<Rightarrow>
         (pp\<lparr>m_flags := m_flags pp OR patchpoint_invalid\<rparr>, policy_returns (osrMethodCode th) th)
     | Opt_Publish \<Rightarrow>
         (pp\<lparr>m_osrMethodCode := osrMethodCode th\<rparr>,
          policy_returns (osrMethodCode th) (th\<lparr>isNewMethod := True\<rparr>))
     | Req_Entry \<Rightarrow>
         if m_flags pp AND patchpoint_invalid = patchpoint_invalid
         then (pp, policy_fatal th)
         else (pp, th\<lparr>isNewMethod := False, backoffs := 0, point := Req_LoopTest\<rparr>)
     | Req_LoopTest \<Rightarrow>
         if m_osrMethodCode pp = 0 then (pp, th\<lparr>point := Req_LoopCheckInvalid\<rparr>)
         else (pp, th\<lparr>point := Req_Return\<rparr>)
     | Req_LoopCheckInvalid \<Rightarrow>
         if m_flags pp AND patchpoint_invalid = patchpoint_invalid
         then (pp, policy_fatal th)
         else (pp, th\<lparr>point := Req_ReadFlags\<rparr>)
     | Req_ReadFlags \<Rightarrow>
         (let old = m_flags pp
          in if old AND patchpoint_triggered = patchpoint_triggered
             then (pp, th\<lparr>oldFlags := old, backoffs := backoffs th + 1, point := Req_LoopTest\<rparr>)
             else (pp, th\<lparr>oldFlags := old, point := Req_RereadFlags\<rparr>))
     | Req_RereadFlags \<Rightarrow>
         (pp, th\<lparr>newFlags := m_flags pp OR patchpoint_triggered, point := Req_CompareExchange\<rparr>)
     | Req_CompareExchange \<Rightarrow>
         if m_flags pp = oldFlags th
         then (pp\<lparr>m_flags := newFlags th\<rparr>, th\<lparr>point := Req_Jit\<rparr>)
         else (pp, th\<lparr>backoffs := backoffs th + 1, point := Req_LoopTest\<rparr>)
     | Req_Jit \<Rightarrow>
         if jit = 0 then (pp, th\<lparr>newMethodCode := jit, point := Req_MarkInvalid\<rparr>)
         else (pp, th\<lparr>newMethodCode := jit, point := Req_Publish\<rparr>)
     | Req_MarkInvalid \<Rightarrow>
         (pp\<lparr>m_flags := m_flags pp OR patchpoint_invalid\<rparr>, policy_fatal th)
     | Req_Publish \<Rightarrow>
         (pp\<lparr>m_osrMethodCode := newMethodCode th\<rparr>,
          th\<lparr>isNewMethod := True, point := Req_LoopTest\<rparr>)
     | Req_Return \<Rightarrow>
         (pp, policy_returns (m_osrMethodCode pp) (th\<lparr>osrMethodCode := m_osrMethodCode pp\<rparr>)))"

text \<open>
  The process: the shared record, the threads by number, and whether
  \<open>EEPOLICY_HANDLE_FATAL_ERROR\<close> has terminated it.
\<close>

record osr_state =
  ppInfo :: PerPatchpointInfo
  threads :: "nat \<Rightarrow> pp_thread"
  crashed :: bool

text \<open>
  What can happen next: a thread that is not inside the helper hits the patchpoint
  (\<open>Hit t must\<close>, with \<open>must\<close> for a call with \<open>counter == NULL\<close>), or a thread takes
  its next step (\<open>Step t jit\<close>). Nothing happens in a terminated process.
\<close>

datatype osr_action = Hit nat bool | Step nat PCODE

definition outside_helper :: "pp_pc \<Rightarrow> bool" where
  "outside_helper p = (case p of Idle \<Rightarrow> True | PolicyDone (PolicyReturns _) \<Rightarrow> True | _ \<Rightarrow> False)"

definition osr_apply :: "osr_config \<Rightarrow> osr_state \<Rightarrow> osr_action \<Rightarrow> osr_state" where
  "osr_apply cfg s a =
    (if crashed s then s
     else case a of
       Hit t must \<Rightarrow>
         if outside_helper (point (threads s t))
         then s\<lparr>threads := (threads s)
                  (t := (threads s t)\<lparr>mustFind := must,
                                        point := (if must then Req_Entry else Opt_Entry)\<rparr>)\<rparr>
         else s
     | Step t jit \<Rightarrow>
         (let (pp', th') = policy_step cfg jit (ppInfo s) (threads s t)
          in s\<lparr>ppInfo := pp', threads := (threads s)(t := th'),
                crashed := (point th' = PolicyDone PolicyFatal)\<rparr>))"

definition osr_run :: "osr_config \<Rightarrow> osr_action list \<Rightarrow> osr_state \<Rightarrow> osr_state" where
  "osr_run cfg acts s = foldl (osr_apply cfg) s acts"

text \<open>
  The state before the first hit: the record as it is created (no code, no flag, no
  hit counted) and no thread inside the helper.
\<close>

definition idle_thread :: pp_thread where
  "idle_thread = \<lparr>point = Idle, mustFind = False, osrMethodCode = 0, newMethodCode = 0,
                   oldFlags = 0, newFlags = 0, isNewMethod = False, counterCell = 0,
                   hitCount = 0, backoffs = 0\<rparr>"

definition osr_initial :: "int \<Rightarrow> osr_state" where
  "osr_initial ppId =
     \<lparr>ppInfo = \<lparr>m_osrMethodCode = 0, m_patchpointCount = 0, m_flags = 0, m_patchpointId = ppId\<rparr>,
      threads = (\<lambda>_. idle_thread), crashed = False\<rparr>"

text \<open>
  A thread is compiling from the moment its compare-and-swap on \<open>m_flags\<close> succeeded
  until it has published the code or marked the patchpoint invalid.
\<close>

definition compiling :: "pp_pc \<Rightarrow> bool" where
  "compiling p = (p \<in> {Opt_RereadCode, Opt_Jit, Opt_MarkInvalid, Opt_Publish,
                         Req_Jit, Req_MarkInvalid, Req_Publish})"

text \<open>
  \<open>flags_le a b\<close>: every flag bit set in \<open>a\<close> is set in \<open>b\<close>.
\<close>

definition flags_le :: "32 word \<Rightarrow> 32 word \<Rightarrow> bool" where
  "flags_le a b = (a OR b = b)"

text \<open>
  What holds of a thread's local variables at each program point, given the shared
  record: the facts the policies rely on between two of their steps.
\<close>

definition thread_inv :: "PerPatchpointInfo \<Rightarrow> pp_thread \<Rightarrow> bool" where
  "thread_inv pp th =
    (case point th of
       Opt_CheckInvalid \<Rightarrow> osrMethodCode th \<noteq> 0 \<longrightarrow> osrMethodCode th = m_osrMethodCode pp
     | Opt_CompareExchange \<Rightarrow>
         oldFlags th AND patchpoint_triggered \<noteq> patchpoint_triggered \<and>
         newFlags th = oldFlags th OR patchpoint_triggered
     | Opt_MarkInvalid \<Rightarrow> osrMethodCode th = 0
     | Opt_Publish \<Rightarrow> osrMethodCode th \<noteq> 0
     | Req_RereadFlags \<Rightarrow>
         oldFlags th AND patchpoint_triggered \<noteq> patchpoint_triggered \<and>
         flags_le (oldFlags th) (m_flags pp)
     | Req_CompareExchange \<Rightarrow>
         oldFlags th AND patchpoint_triggered \<noteq> patchpoint_triggered \<and>
         flags_le (oldFlags th) (newFlags th) \<and>
         flags_le (newFlags th) (m_flags pp OR patchpoint_triggered) \<and>
         newFlags th AND patchpoint_triggered = patchpoint_triggered
     | Req_Publish \<Rightarrow> newMethodCode th \<noteq> 0
     | PolicyDone r \<Rightarrow>
         (case r of PolicyReturns c \<Rightarrow> c \<noteq> 0 \<longrightarrow> c = m_osrMethodCode pp | PolicyFatal \<Rightarrow> True)
     | _ \<Rightarrow> True)"

definition osr_inv :: "osr_state \<Rightarrow> bool" where
  "osr_inv s =
    ((\<forall>t. compiling (point (threads s t)) \<longrightarrow>
           m_flags (ppInfo s) AND patchpoint_triggered = patchpoint_triggered \<and>
           m_osrMethodCode (ppInfo s) = 0) \<and>
     (\<forall>t1 t2. compiling (point (threads s t1)) \<and> compiling (point (threads s t2)) \<longrightarrow> t1 = t2) \<and>
     (\<forall>t. thread_inv (ppInfo s) (threads s t)) \<and>
     (m_osrMethodCode (ppInfo s) \<noteq> 0 \<longrightarrow>
        m_flags (ppInfo s) AND patchpoint_triggered = patchpoint_triggered) \<and>
     (m_flags (ppInfo s) AND patchpoint_invalid = patchpoint_invalid \<longrightarrow>
        m_flags (ppInfo s) AND patchpoint_triggered = patchpoint_triggered \<and>
        m_osrMethodCode (ppInfo s) = 0 \<and>
        (\<forall>t. \<not> compiling (point (threads s t)))))"

text \<open>
  Where a thread can be once it has hit a patchpoint that was already invalid: on the
  first two steps of the optimizing policy or returned from it with \<open>NULL\<close>, or on the
  first step of the required policy or gone fatal in it.
\<close>

definition after_invalid_hit :: "pp_thread \<Rightarrow> bool" where
  "after_invalid_hit th =
     ((\<not> mustFind th \<and>
         point th \<in> {Opt_Entry, Opt_CheckInvalid, PolicyDone (PolicyReturns 0)}) \<or>
      (mustFind th \<and> point th \<in> {Req_Entry, PolicyDone PolicyFatal}))"





text \<open>The last-error value an invocation leaves behind, on the two exits that have one.\<close>

definition exit_LastError :: "worker_outcome \<Rightarrow> DWORD option" where
  "exit_LastError out =
     (case out of Returned e \<Rightarrow> Some e | Transitioned _ e \<Rightarrow> Some e | _ \<Rightarrow> None)"

subsection \<open>A concrete helper invocation\<close>

text \<open>
  One synthetic frame layout, used to run the helper: the helper's own frame is captured
  at \<open>0x1000\<close> (unmanaged), one unwind step reaches the original method's frame at
  \<open>0x2000\<close> with \<open>SP = 0x7000\<close> and \<open>FP = 0x7040\<close>, the caller of the original method
  has \<open>SP = 0x7100\<close> and \<open>FP = 0x7200\<close>, the optimizing policy returns OSR code at
  \<open>0x5000\<close>, and every external call leaves 122 as the last error.
\<close>

definition osr_env_example :: osr_env where
  "osr_env_example =
    \<lparr> PatchpointRequiredPolicy_result = PolicyFatal,
      PatchpointOptimizationPolicy_result = PolicyReturns 0x5000,
      LastError_after = (\<lambda>_ _. 122),
      RtlCaptureContext = \<lparr>Ip = 0x1000, Sp = 0x6000, Fp = 0x6020, Ssp = 0, OtherRegs = [1]\<rparr>,
      AreShadowStacksEnabled = False,
      rdsspq = 0,
      IsManagedCode = (\<lambda>pc. pc = 0x2000),
      IsIPInWriteBarrierCodeCopy = (\<lambda>_. False),
      AdjustWriteBarrierIP = (\<lambda>pc. pc),
      VirtualUnwindCallFrame =
        (\<lambda>_. \<lparr>Ip = 0x2000, Sp = 0x7000, Fp = 0x7040, Ssp = 0, OtherRegs = [2]\<rparr>),
      AdjustContextForVirtualStub = (\<lambda>_. None),
      PAL_VirtualUnwind =
        (\<lambda>_. Some \<lparr>Ip = 0x2000, Sp = 0x7000, Fp = 0x7040, Ssp = 0, OtherRegs = [2]\<rparr>),
      g_hostingApiReturnAddress = 0x9999,
      RtlVirtualUnwind =
        (\<lambda>_. \<lparr>Ip = 0x3000, Sp = 0x7100, Fp = 0x7200, Ssp = 0, OtherRegs = [3]\<rparr>) \<rparr>"

definition target_windows_amd64 :: target where
  "target_windows_amd64 = \<lparr>TARGET_AMD64 = True, TARGET_WINDOWS = True, DEBUG_BUILD = False\<rparr>"

definition target_linux_arm64 :: target where
  "target_linux_arm64 = \<lparr>TARGET_AMD64 = False, TARGET_WINDOWS = False, DEBUG_BUILD = False\<rparr>"

subsection \<open>Concrete runs of the policies\<close>

text \<open>
  A hit limit of one, and three schedules for two threads. In the first, thread 0 wins the
  compare-and-swap while thread 1 hits the patchpoint too, and thread 0's compilation
  fails. In the second, thread 0 compiles successfully while thread 1 waits in the
  required policy. The last two run thread 0 alone into a failed compilation, then let
  thread 1 hit the patchpoint.
\<close>

definition osr_config_example :: osr_config where
  "osr_config_example = \<lparr>OSR_CounterBump = 1000, OSR_HitLimit = 1, OSR_LowId = 0,
                          OSR_HighId = 100, CHECKED_BUILD = False\<rparr>"



definition schedule_thread0_fails :: "osr_action list" where
  "schedule_thread0_fails =
     [Hit 0 False, Step 0 0, Step 0 0, Step 0 0, Step 0 0, Step 0 0, Step 0 0, Step 0 0, Step 0 0]"

definition schedule_thread1_hits :: "osr_action list" where
  "schedule_thread1_hits = [Hit 1 False, Step 1 0, Step 1 0]"

section \<open>The stack walker (vm/stackwalk.cpp)\<close>

text \<open>
  The model follows the build in which \<open>FEATURE_EH_FUNCLETS\<close> is defined and
  \<open>DACCESS_COMPILE\<close>, \<open>FEATURE_INTERPRETER\<close> and \<open>ELIMINATE_FEF\<close> are not; with funclets
  \<open>STACKWALKER_MAY_POP_FRAMES\<close> is never defined, so no frame is popped. The macros
  \<open>PROCESS_EXPLICIT_FRAME_BEFORE_MANAGED_FRAME\<close>, \<open>RECORD_RESUMABLE_FRAME_SP\<close> and
  \<open>NO_FIXED_STACK_LIMIT\<close> are defined in headers that are not among the sources: they
  are parameters of the model. So is \<open>_DEBUG\<close> (\<open>CHECKED\<close>), for the one assertion the
  properties below are about, the \<open>_ASSERTE\<close> inside \<open>FAIL_IF_SPECULATIVE_WALK\<close>; the
  other assertions, which a release build does not contain, are left out.
\<close>

record build =
  PROCESS_EXPLICIT_FRAME_BEFORE_MANAGED_FRAME :: bool
  RECORD_RESUMABLE_FRAME_SP :: bool
  NO_FIXED_STACK_LIMIT :: bool
  CHECKED :: bool

type_synonym TADDR = "64 word"

datatype StackWalkAction = SWA_CONTINUE | SWA_ABORT | SWA_FAILED

text \<open>
  The stack walk flags. The iterator only ever tests single flags of \<open>m_flags\<close>, so the
  flag word is a set of flags and \<open>m_flags & F\<close> is membership.
\<close>

datatype StackwalkFlag =
    FUNCTIONSONLY | POPFRAMES | QUICKUNWIND | LIGHTUNWIND | HANDLESKIPPEDFRAMES
  | SKIPFUNCLETS | NOTIFY_ON_U2M_TRANSITIONS | NOTIFY_ON_INITIAL_NATIVE_CONTEXT
  | NOTIFY_ON_NO_FRAME_TRANSITIONS | GC_FUNCLET_REFERENCE_REPORTING
  | PROFILER_DO_STACK_SNAPSHOT | SKIP_GSCOOKIE_CHECK | THREAD_IS_SUSPENDED
  | UNWIND_FLOATS | ALLOW_ASYNC_STACK_WALK | ALLOW_INVALID_OBJECTS

datatype FrameState =
    SFITER_UNINITIALIZED
  | SFITER_FRAMELESS_METHOD
  | SFITER_FRAME_FUNCTION
  | SFITER_SKIPPED_FRAME_FUNCTION
  | SFITER_NO_FRAME_TRANSITION
  | SFITER_NATIVE_MARKER_FRAME
  | SFITER_INITIAL_NATIVE_CONTEXT
  | SFITER_DONE

datatype ForceGCReportingStage = Off | LookForManagedFrame | LookForMarkerFrame

text \<open>A method descriptor, as far as the walker looks into it.\<close>

record MethodDesc =
  md_token :: nat
  md_IsILStub :: bool
  md_HasMDContextArg :: bool

text \<open>
  \<open>EECodeInfo\<close>: what the code-region lookup says about a program counter. \<open>ci_IsValid\<close>
  is \<open>IsValid()\<close> (the address is in managed code); the other fields are meaningful
  only then.
\<close>

record EECodeInfo =
  ci_IsValid :: bool
  ci_MethodDesc :: MethodDesc
  ci_IsFunclet :: bool
  ci_IsFilterFunclet :: bool

text \<open>
  \<open>REGDISPLAY\<close>, reduced to what the iterator reads: the control PC and stack pointer
  of the current context, the stack pointer and instruction pointer of the caller
  context, and whether the current context carries \<open>CONTEXT_EXCEPTION_ACTIVE\<close>.
\<close>

record REGDISPLAY =
  ControlPC :: TADDR
  SP :: TADDR
  CallerSP :: TADDR
  CallerIP :: TADDR
  IsCallerContextValid :: bool
  EXCEPTION_ACTIVE :: bool

datatype FrameAttrib = FRAME_ATTR_RESUMABLE | FRAME_ATTR_EXCEPTION | FRAME_ATTR_FAULTED

datatype FrameIdentifier = InlinedCallFrame | OtherFrame nat

text \<open>
  An explicit frame of the thread's frame chain, at some address: its successor
  (\<open>Next()\<close>), its attributes, its return address, its function, what its
  \<open>UpdateRegDisplay\<close> does, and for an \<open>InlinedCallFrame\<close> whether it has an active call
  and its actual interop method.
\<close>

record Frame =
  frame_Next :: TADDR
  frame_Identifier :: FrameIdentifier
  frame_Attribs :: "FrameAttrib set"
  frame_ReturnAddress :: TADDR
  frame_Function :: "MethodDesc option"
  frame_UpdateRegDisplay :: "REGDISPLAY \<Rightarrow> REGDISPLAY"
  frame_HasActiveCall :: bool
  frame_ActualInteropMethodDesc :: "MethodDesc option"

text \<open>
  Modelled from the spec: \<open>FRAME_TOP\<close> and the \<open>StackFrame\<close> class (\<open>IsNull\<close>,
  \<open>IsMaxVal\<close>, \<open>Clear\<close>, the default constructor) are declared in headers that are not
  among the sources. The source only asserts that \<open>FRAME_TOP_VALUE\<close> is not 0. A
  \<open>StackFrame\<close> is taken to be its stack pointer value, null when 0 and "max" when all
  ones, and \<open>FRAME_TOP\<close> to be the all-ones address.
\<close>

definition FRAME_TOP :: TADDR where
  "FRAME_TOP = - 1"

type_synonym StackFrame = TADDR

definition StackFrame_IsNull :: "StackFrame \<Rightarrow> bool" where
  "StackFrame_IsNull sf = (sf = 0)"

definition StackFrame_IsMaxVal :: "StackFrame \<Rightarrow> bool" where
  "StackFrame_IsMaxVal sf = (sf = - 1)"

definition StackFrame_Null :: StackFrame where
  "StackFrame_Null = 0"

text \<open>The exception tracker the funclet-aware filter consults (\<open>ExInfo\<close>).\<close>

record ExInfo =
  exinfo_address :: TADDR
  m_passNumber :: nat
  m_csfEnclosingClause :: StackFrame
  m_lastReportedFunclet_IP :: TADDR
  m_sfCallerOfActualHandlerFrame :: StackFrame
  m_ClauseForCatch :: nat

text \<open>The iterator's current position (\<open>CrawlFrame\<close>).\<close>

record CrawlFrame =
  pFrame :: TADDR
  pRD :: REGDISPLAY
  pFunc :: "MethodDesc option"
  codeInfo :: EECodeInfo
  isFrameless :: bool
  isFirst :: bool
  isInterrupted :: bool
  hasFaulted :: bool
  isIPadjusted :: bool
  isNativeMarker :: bool
  isProfilerDoStackSnapshot :: bool
  isNoFrameTransition :: bool
  taNoFrameTransitionMarker :: TADDR
  isFilterFunclet :: bool
  isFilterFuncletCached :: bool
  fShouldParentToFuncletSkipReportingGCReferences :: bool
  fShouldCrawlframeReportGCReferences :: bool
  fShouldParentFrameUseUnwindTargetPCforGCReporting :: bool
  fShouldSaveFuncletInfo :: bool
  fShouldParentToFuncletReportSavedFuncletSlots :: bool
  ehClauseForCatch :: nat
  pCurGSCookie :: TADDR
  pFirstGSCookie :: TADDR

text \<open>
  Everything the walker asks of its collaborators: the code-region lookup, the code
  manager, the frame chain in memory, the walked thread, and the exception tracker with
  the static \<open>ExInfo\<close> predicates. They are fixed for the duration of a walk.
\<close>

record walk_env =
  EECodeInfo_Init :: "TADDR \<Rightarrow> EECodeInfo"
  ExecutionManager_IsManagedCode :: "TADDR \<Rightarrow> bool"
  UnwindStackFrame :: "CrawlFrame \<Rightarrow> EECodeInfo \<Rightarrow> StackwalkFlag set \<Rightarrow> bool \<times> REGDISPLAY"
  EnsureCallerContextIsValid :: "REGDISPLAY \<Rightarrow> EECodeInfo option \<Rightarrow> REGDISPLAY"
  GetGSCookieAddr :: "REGDISPLAY \<Rightarrow> EECodeInfo \<Rightarrow> TADDR"
  FrameAt :: "TADDR \<Rightarrow> Frame"
  Thread_GetFrame :: TADDR
  IsExecutingOnAltStack :: bool
  GetCachedStackLimit :: TADDR
  GetCachedStackBase :: TADDR
  GetProcessGSCookie :: "64 word"
  GetCurrentExceptionTracker :: "ExInfo option"
  FindParentStackFrameForStackWalk :: "CrawlFrame \<Rightarrow> bool \<Rightarrow> StackFrame"
  HasFrameBeenUnwoundByAnyActiveException :: "CrawlFrame \<Rightarrow> bool"
  IsUnwoundToTargetParentFrame :: "CrawlFrame \<Rightarrow> StackFrame \<Rightarrow> bool"
  IsInStackRegionUnwoundByCurrentException :: "CrawlFrame \<Rightarrow> bool"

text \<open>
  The two lines that \<open>NextRaw\<close> writes to the runtime log when it gives up
  (\<open>**PROF: ... failure leads to SWA_FAILED\<close>): after a failed \<open>UnwindStackFrame\<close>, and
  after a failed condition of \<open>FAIL_IF_SPECULATIVE_WALK\<close>. Only a build with logging
  writes them; the model records them in every build, and nothing reads them.
\<close>

datatype LogLine =
    LOG_UnwindStackFrame_failure
  | LOG_condition_failure

text \<open>The iterator (\<open>StackFrameIterator\<close>), with the log kept beside its fields.\<close>

record StackFrameIterator =
  m_frameState :: FrameState
  m_crawl :: CrawlFrame
  m_flags_it :: "StackwalkFlag set"
  m_pStartFrame :: TADDR
  m_cachedCodeInfo :: EECodeInfo
  m_pCachedGSCookie :: TADDR
  m_sfParent :: StackFrame
  m_sfFuncletParent :: StackFrame
  m_sfIntermediaryFuncletParent :: StackFrame
  m_fProcessNonFilterFunclet :: bool
  m_fProcessIntermediaryNonFilterFunclet :: bool
  m_fDidFuncletReportGCReferences :: bool
  m_forceReportingWhileSkipping :: ForceGCReportingStage
  m_movedPastFirstExInfo :: bool
  m_fFuncletNotSeen :: bool
  m_fFoundFirstFunclet :: bool
  m_pvResumableFrameTargetSP :: TADDR
  m_log :: "LogLine list"

text \<open>
  How the process can end inside the walker instead of returning: \<open>DoJITFailFast\<close>,
  or a failed assertion of a checked build.
\<close>

datatype process_exit = JITFailFast | AssertionFailure

text \<open>The memory holding the GS cookies: the value stored at each address.\<close>

type_synonym memory = "TADDR \<Rightarrow> 64 word"

subsection \<open>The crawl frame\<close>

text \<open>\<open>CrawlFrame::CheckGSCookies\<close> (lines 246-261).\<close>

definition CheckGSCookies :: "walk_env \<Rightarrow> memory \<Rightarrow> CrawlFrame \<Rightarrow> process_exit + unit" where
  "CheckGSCookies env mem cf =
    (if pFirstGSCookie cf = 0 then Inr ()
     else if mem (pFirstGSCookie cf) \<noteq> GetProcessGSCookie env then Inl JITFailFast
     else if mem (pCurGSCookie cf) \<noteq> GetProcessGSCookie env then Inl JITFailFast
     else Inr ())"

text \<open>\<open>CrawlFrame::SetCurGSCookie\<close> (lines 263-278).\<close>

definition SetCurGSCookie ::
  "walk_env \<Rightarrow> memory \<Rightarrow> TADDR \<Rightarrow> CrawlFrame \<Rightarrow> process_exit + CrawlFrame"
where
  "SetCurGSCookie env mem pGSCookie cf =
    (if pGSCookie = 0 then Inl JITFailFast
     else
       (let cf1 = cf\<lparr>pCurGSCookie := pGSCookie\<rparr>;
            cf2 = (if pFirstGSCookie cf1 = 0 then cf1\<lparr>pFirstGSCookie := pGSCookie\<rparr> else cf1)
        in case CheckGSCookies env mem cf2 of Inl e \<Rightarrow> Inl e | Inr _ \<Rightarrow> Inr cf2))"

text \<open>
  \<open>CrawlFrame::IsFilterFunclet\<close> (lines 281-297): the answer, and the crawl frame with
  the answer cached.
\<close>

definition IsFilterFunclet :: "CrawlFrame \<Rightarrow> bool \<times> CrawlFrame" where
  "IsFilterFunclet cf =
    (if \<not> isFrameless cf then (False, cf)
     else if \<not> isFilterFuncletCached cf
     then (ci_IsFilterFunclet (codeInfo cf),
           cf\<lparr>isFilterFunclet := ci_IsFilterFunclet (codeInfo cf), isFilterFuncletCached := True\<rparr>)
     else (isFilterFunclet cf, cf))"

text \<open>
  Modelled from the spec: \<open>CrawlFrame::IsFunclet\<close> is defined in stackwalk.h, which is
  not among the sources. The spec has the position say "whether this position is a
  funclet"; as for \<open>IsFilterFunclet\<close>, only a frameless position can be one.
\<close>

definition IsFunclet :: "CrawlFrame \<Rightarrow> bool" where
  "IsFunclet cf = (isFrameless cf \<and> ci_IsFunclet (codeInfo cf))"

text \<open>
  \<open>m_crawl.pFunc->IsILStub()\<close>. The filter only asks at a frameless position, where
  \<open>pFunc\<close> has been set from the code region and is not \<open>NULL\<close>.
\<close>

definition pFunc_IsILStub :: "CrawlFrame \<Rightarrow> bool" where
  "pFunc_IsILStub cf = (case pFunc cf of Some md \<Rightarrow> md_IsILStub md | None \<Rightarrow> False)"

text \<open>\<open>CrawlFrame::GotoNextFrame\<close> (lines 220-233).\<close>

definition GotoNextFrame :: "walk_env \<Rightarrow> CrawlFrame \<Rightarrow> CrawlFrame" where
  "GotoNextFrame env cf = cf\<lparr>pFrame := frame_Next (FrameAt env (pFrame cf))\<rparr>"


subsection \<open>The iterator: advancing one position\<close>

text \<open>\<open>StackFrameIterator::ProcessIp\<close> (lines 2681-2704).\<close>

definition ProcessIp :: "walk_env \<Rightarrow> TADDR \<Rightarrow> StackFrameIterator \<Rightarrow> StackFrameIterator" where
  "ProcessIp env ip it =
    (let ci = EECodeInfo_Init env ip
     in it\<lparr>m_crawl := (m_crawl it)\<lparr>codeInfo := ci, isFrameless := ci_IsValid ci\<rparr>\<rparr>)"

text \<open>\<open>StackFrameIterator::IsValid\<close> (lines 1421-1485).\<close>

definition IsValid :: "StackFrameIterator \<Rightarrow> bool" where
  "IsValid it =
    (if \<not> isFrameless (m_crawl it) \<and> pFrame (m_crawl it) = FRAME_TOP
     then m_frameState it = SFITER_NATIVE_MARKER_FRAME
     else True)"

text \<open>
  The loop of \<open>CheckForSkippedFrames\<close> (lines 2987-3038), entered with the reference
  stack pointer. With \<open>HANDLESKIPPEDFRAMES\<close> it walks the frame chain, which nothing
  bounds: not returning is \<open>None\<close>.
\<close>

partial_function (option) CheckForSkippedFrames_loop ::
  "walk_env \<Rightarrow> TADDR \<Rightarrow> StackFrameIterator \<Rightarrow> (bool \<times> StackFrameIterator) option"
where
  "CheckForSkippedFrames_loop env pvReferenceSP it =
    (if pFrame (m_crawl it) \<noteq> FRAME_TOP \<and> pFrame (m_crawl it) < pvReferenceSP
     then
       (let cf = m_crawl it;
            fr = FrameAt env (pFrame cf);
            fReportInteropMD =
              (pFrame cf \<noteq> FRAME_TOP \<and> frame_Identifier fr = InlinedCallFrame \<and>
               (case pFunc cf of
                  None \<Rightarrow> False
                | Some md \<Rightarrow> md_IsILStub md \<and> md_HasMDContextArg md))
        in if HANDLESKIPPEDFRAMES \<in> m_flags_it it
           then CheckForSkippedFrames_loop env pvReferenceSP (it\<lparr>m_crawl := GotoNextFrame env cf\<rparr>)
           else Some (True,
                  it\<lparr>m_crawl := cf\<lparr>isFrameless := False,
                                     pFunc := (if fReportInteropMD
                                               then frame_ActualInteropMethodDesc fr
                                               else frame_Function fr)\<rparr>,
                      m_frameState := SFITER_SKIPPED_FRAME_FUNCTION\<rparr>))
     else Some (False, it))"

text \<open>\<open>StackFrameIterator::CheckForSkippedFrames\<close> (lines 2952-3041).\<close>

definition CheckForSkippedFrames ::
  "build \<Rightarrow> walk_env \<Rightarrow> StackFrameIterator \<Rightarrow> (bool \<times> StackFrameIterator) option"
where
  "CheckForSkippedFrames bld env it =
    (let it1 =
           (if PROCESS_EXPLICIT_FRAME_BEFORE_MANAGED_FRAME bld
            then it\<lparr>m_crawl := (m_crawl it)
                       \<lparr>pRD := EnsureCallerContextIsValid env (pRD (m_crawl it))
                                   (Some (m_cachedCodeInfo it))\<rparr>\<rparr>
            else it);
         pvReferenceSP =
           (if PROCESS_EXPLICIT_FRAME_BEFORE_MANAGED_FRAME bld
            then CallerSP (pRD (m_crawl it1)) else SP (pRD (m_crawl it1)))
     in if \<not> (pFrame (m_crawl it1) \<noteq> FRAME_TOP \<and> pFrame (m_crawl it1) < pvReferenceSP)
        then Some (False, it1)
        else CheckForSkippedFrames_loop env pvReferenceSP it1)"

text \<open>\<open>StackFrameIterator::PreProcessingForManagedFrames\<close> (lines 3048-3113).\<close>

definition PreProcessingForManagedFrames ::
  "build \<Rightarrow> walk_env \<Rightarrow> memory \<Rightarrow> StackFrameIterator \<Rightarrow> process_exit + StackFrameIterator"
where
  "PreProcessingForManagedFrames bld env mem it =
    (let it1 =
           (if RECORD_RESUMABLE_FRAME_SP bld \<and> m_pvResumableFrameTargetSP it \<noteq> 0
            then it\<lparr>m_pvResumableFrameTargetSP := 0, m_crawl := (m_crawl it)\<lparr>isFirst := True\<rparr>\<rparr>
            else it);
         it2 = it1\<lparr>m_pCachedGSCookie :=
                      GetGSCookieAddr env (pRD (m_crawl it1)) (codeInfo (m_crawl it1))\<rparr>
     in if SKIP_GSCOOKIE_CHECK \<notin> m_flags_it it2 \<and> m_pCachedGSCookie it2 \<noteq> 0
        then
          (case SetCurGSCookie env mem (m_pCachedGSCookie it2) (m_crawl it2) of
             Inl e \<Rightarrow> Inl e
           | Inr cf \<Rightarrow> Inr (it2\<lparr>m_crawl := cf, m_frameState := SFITER_FRAMELESS_METHOD\<rparr>))
        else Inr (it2\<lparr>m_frameState := SFITER_FRAMELESS_METHOD\<rparr>))"

text \<open>\<open>StackFrameIterator::PostProcessingForManagedFrames\<close> (lines 3121-3150).\<close>

definition PostProcessingForManagedFrames ::
  "walk_env \<Rightarrow> StackFrameIterator \<Rightarrow> StackFrameIterator"
where
  "PostProcessingForManagedFrames env it =
    (let it1 = ProcessIp env (ControlPC (pRD (m_crawl it))) it
     in if \<not> isFrameless (m_crawl it1)
        then it1\<lparr>m_frameState := SFITER_NATIVE_MARKER_FRAME,
                 m_crawl := (m_crawl it1)\<lparr>isNativeMarker := True\<rparr>\<rparr>
        else it1)"

text \<open>
  \<open>StackFrameIterator::ProcessCurrentFrame\<close> (lines 2716-2935). On entry
  \<open>m_frameState\<close> is still the state of the position just left.
\<close>

definition ProcessCurrentFrame ::
  "build \<Rightarrow> walk_env \<Rightarrow> memory \<Rightarrow> StackFrameIterator \<Rightarrow>
   (process_exit + StackFrameIterator) option"
where
  "ProcessCurrentFrame bld env mem it =
    (case CheckGSCookies env mem (m_crawl it) of
       Inl e \<Rightarrow> Some (Inl e)
     | Inr _ \<Rightarrow>
        (let fDone = (m_frameState it = SFITER_UNINITIALIZED \<and> \<not> isFrameless (m_crawl it));
             it1 =
               (if m_frameState it = SFITER_UNINITIALIZED
                then (if \<not> isFrameless (m_crawl it)
                      then it\<lparr>m_frameState := SFITER_INITIAL_NATIVE_CONTEXT\<rparr> else it)
                else it\<lparr>m_frameState := SFITER_UNINITIALIZED\<rparr>)
         in if fDone then Some (Inr it1)
            else if \<not> IsValid it1 then Some (Inr (it1\<lparr>m_frameState := SFITER_DONE\<rparr>))
            else if isFrameless (m_crawl it1) then
              (let cf = (m_crawl it1)\<lparr>isFilterFuncletCached := False,
                                       pFunc := Some (ci_MethodDesc (codeInfo (m_crawl it1)))\<rparr>;
                   it2 = it1\<lparr>m_crawl := cf, m_cachedCodeInfo := codeInfo cf\<rparr>
               in if PROCESS_EXPLICIT_FRAME_BEFORE_MANAGED_FRAME bld
                  then
                    (case CheckForSkippedFrames bld env it2 of
                       None \<Rightarrow> None
                     | Some (True, it3) \<Rightarrow> Some (Inr it3)
                     | Some (False, it3) \<Rightarrow>
                         Some (PreProcessingForManagedFrames bld env mem it3))
                  else Some (PreProcessingForManagedFrames bld env mem it2))
            else
              Some (Inr (it1\<lparr>m_crawl := (m_crawl it1)
                                 \<lparr>pFunc := frame_Function (FrameAt env (pFrame (m_crawl it1)))\<rparr>,
                              m_frameState := SFITER_FRAME_FUNCTION\<rparr>))))"

text \<open>
  The two \<open>FAIL_IF_SPECULATIVE_WALK\<close> checks on the unwound stack pointer (lines
  2460-2486): \<open>None\<close> when both conditions hold or nothing checks them, otherwise what
  the macro does, a return of \<open>SWA_FAILED\<close> (\<open>Inr\<close>) in a speculative walk and a failed
  assertion (\<open>Inl\<close>) in a checked build.
\<close>

definition FAIL_IF_SPECULATIVE_WALK ::
  "build \<Rightarrow> StackwalkFlag set \<Rightarrow> bool \<Rightarrow> (process_exit + StackWalkAction) option"
where
  "FAIL_IF_SPECULATIVE_WALK bld flags condition =
    (if PROFILER_DO_STACK_SNAPSHOT \<in> flags
     then (if \<not> condition then Some (Inr SWA_FAILED) else None)
     else (if CHECKED bld \<and> \<not> condition then Some (Inl AssertionFailure) else None))"

definition CheckUnwoundStackPointer ::
  "build \<Rightarrow> walk_env \<Rightarrow> StackwalkFlag set \<Rightarrow> TADDR \<Rightarrow> (process_exit + StackWalkAction) option"
where
  "CheckUnwoundStackPointer bld env flags newSP =
    (case (if NO_FIXED_STACK_LIMIT bld then None
           else FAIL_IF_SPECULATIVE_WALK bld flags
                  (IsExecutingOnAltStack env \<or> newSP \<ge> GetCachedStackLimit env)) of
       Some r \<Rightarrow> Some r
     | None \<Rightarrow>
         FAIL_IF_SPECULATIVE_WALK bld flags
           (IsExecutingOnAltStack env \<or> newSP < GetCachedStackBase env))"

text \<open>
  The end of \<open>NextRaw\<close> (lines 2638-2655): \<open>ProcessCurrentFrame\<close>, then the label
  \<open>Cleanup\<close>, which returns \<open>retVal\<close>, still \<open>SWA_CONTINUE\<close> there.
\<close>

definition NextRaw_ProcessCurrentFrame ::
  "build \<Rightarrow> walk_env \<Rightarrow> memory \<Rightarrow> StackFrameIterator \<Rightarrow>
   (process_exit + StackWalkAction \<times> StackFrameIterator) option"
where
  "NextRaw_ProcessCurrentFrame bld env mem it =
    (case ProcessCurrentFrame bld env mem it of
       None \<Rightarrow> None
     | Some (Inl e) \<Rightarrow> Some (Inl e)
     | Some (Inr it') \<Rightarrow> Some (Inr (SWA_CONTINUE, it')))"

text \<open>
  \<open>PostProcessingForManagedFrames\<close> and the jump to \<open>Cleanup\<close> at a native marker,
  as both the \<open>SFITER_SKIPPED_FRAME_FUNCTION\<close> and the \<open>SFITER_FRAMELESS_METHOD\<close> branch
  have it (lines 2363-2367 and 2509-2513).
\<close>

definition NextRaw_PostProcessing ::
  "build \<Rightarrow> walk_env \<Rightarrow> memory \<Rightarrow> StackFrameIterator \<Rightarrow>
   (process_exit + StackWalkAction \<times> StackFrameIterator) option"
where
  "NextRaw_PostProcessing bld env mem it =
    (let it1 = PostProcessingForManagedFrames env it
     in if m_frameState it1 = SFITER_NATIVE_MARKER_FRAME
        then Some (Inr (SWA_CONTINUE, it1))
        else NextRaw_ProcessCurrentFrame bld env mem it1)"

text \<open>
  \<open>StackFrameIterator::NextRaw\<close> (lines 2283-2656). The result is the returned
  \<open>StackWalkAction\<close> with the iterator as the call leaves it.
\<close>

definition NextRaw ::
  "build \<Rightarrow> walk_env \<Rightarrow> memory \<Rightarrow> StackFrameIterator \<Rightarrow>
   (process_exit + StackWalkAction \<times> StackFrameIterator) option"
where
  "NextRaw bld env mem it =
    (if m_frameState it = SFITER_SKIPPED_FRAME_FUNCTION then
       (case CheckForSkippedFrames bld env (it\<lparr>m_crawl := GotoNextFrame env (m_crawl it)\<rparr>) of
          None \<Rightarrow> None
        | Some (True, it1) \<Rightarrow> Some (Inr (SWA_CONTINUE, it1))
        | Some (False, it1) \<Rightarrow>
            if \<not> PROCESS_EXPLICIT_FRAME_BEFORE_MANAGED_FRAME bld
            then NextRaw_PostProcessing bld env mem it1
            else
              (case PreProcessingForManagedFrames bld env mem
                      (it1\<lparr>m_crawl := (m_crawl it1)
                              \<lparr>isFrameless := True, codeInfo := m_cachedCodeInfo it1,
                               pFunc := Some (ci_MethodDesc (m_cachedCodeInfo it1))\<rparr>\<rparr>) of
                 Inl e \<Rightarrow> Some (Inl e)
               | Inr it2 \<Rightarrow> Some (Inr (SWA_CONTINUE, it2))))
     else if m_frameState it = SFITER_FRAMELESS_METHOD then
       (let unwound = UnwindStackFrame env (m_crawl it) (m_cachedCodeInfo it) (m_flags_it it);
            it1 = it\<lparr>m_crawl := (m_crawl it)\<lparr>pRD := snd unwound\<rparr>\<rparr>
        in if \<not> fst unwound
           then Some (Inr (SWA_FAILED, it1\<lparr>m_log := m_log it1 @ [LOG_UnwindStackFrame_failure]\<rparr>))
           else
             (case CheckUnwoundStackPointer bld env (m_flags_it it1) (SP (pRD (m_crawl it1))) of
                Some (Inl e) \<Rightarrow> Some (Inl e)
              | Some (Inr a) \<Rightarrow>
                  Some (Inr (a, it1\<lparr>m_log := m_log it1 @ [LOG_condition_failure]\<rparr>))
              | None \<Rightarrow>
                 (let it2 = it1\<lparr>m_crawl := (m_crawl it1)
                                  \<lparr>isFirst := False, isInterrupted := False,
                                   hasFaulted := False, isIPadjusted := False\<rparr>\<rparr>
                  in if \<not> PROCESS_EXPLICIT_FRAME_BEFORE_MANAGED_FRAME bld
                     then
                       (case CheckForSkippedFrames bld env it2 of
                          None \<Rightarrow> None
                        | Some (True, it3) \<Rightarrow> Some (Inr (SWA_CONTINUE, it3))
                        | Some (False, it3) \<Rightarrow> NextRaw_PostProcessing bld env mem it3)
                     else NextRaw_PostProcessing bld env mem it2)))
     else if m_frameState it = SFITER_FRAME_FUNCTION then
       (let fr = FrameAt env (pFrame (m_crawl it));
            pInlinedFrame = frame_HasActiveCall fr;
            uFrameAttribs = frame_Attribs fr;
            cf1 = (m_crawl it)\<lparr>isFirst := (FRAME_ATTR_RESUMABLE \<in> uFrameAttribs),
                                isInterrupted := (FRAME_ATTR_EXCEPTION \<in> uFrameAttribs)\<rparr>;
            cf2 = (if isInterrupted cf1
                   then cf1\<lparr>hasFaulted := (FRAME_ATTR_FAULTED \<in> uFrameAttribs),
                            isIPadjusted := False\<rparr>
                   else cf1);
            it1 = it\<lparr>m_crawl := cf2\<rparr>;
            adr = frame_ReturnAddress fr;
            it2 = (if adr \<noteq> 0 then ProcessIp env adr it1 else it1);
            it3 = (if adr \<noteq> 0 \<and> isFrameless (m_crawl it2)
                   then it2\<lparr>m_crawl := (m_crawl it2)
                              \<lparr>pRD := frame_UpdateRegDisplay fr (pRD (m_crawl it2))\<rparr>\<rparr>
                   else it2);
            resumable = (adr \<noteq> 0 \<and> isFrameless (m_crawl it2) \<and>
                         RECORD_RESUMABLE_FRAME_SP bld \<and> isFirst (m_crawl it3))
        in if resumable \<and> THREAD_IS_SUSPENDED \<in> m_flags_it it3
           then Some (Inr (SWA_FAILED, it3))
           else
             (let it4 =
                    (if resumable
                     then (let rd = EnsureCallerContextIsValid env (pRD (m_crawl it3)) None
                           in it3\<lparr>m_crawl := (m_crawl it3)\<lparr>pRD := rd\<rparr>,
                                   m_pvResumableFrameTargetSP := CallerSP rd\<rparr>)
                     else it3);
                  it5 = (if \<not> pInlinedFrame
                         then it4\<lparr>m_crawl := GotoNextFrame env (m_crawl it4)\<rparr> else it4)
              in NextRaw_ProcessCurrentFrame bld env mem it5))
     else if m_frameState it = SFITER_NATIVE_MARKER_FRAME then
       NextRaw_ProcessCurrentFrame bld env mem
         (it\<lparr>m_crawl := (m_crawl it)\<lparr>isNativeMarker := False\<rparr>\<rparr>)
     else if m_frameState it = SFITER_INITIAL_NATIVE_CONTEXT then
       NextRaw_ProcessCurrentFrame bld env mem it
     else Some (Inr (SWA_FAILED, it)))"


subsection \<open>The iterator: filtering positions\<close>

text \<open>
  Modelled from the spec: \<open>StackFrameIterator::ResetGCRefReportingState\<close> is defined
  in stackwalk.h, which is not among the sources. The filter calls it when it has reached
  the parent frame a funclet was tracked for. It is taken to forget the tracked
  intermediary funclet parent and, unless asked to reset only the intermediary state, the
  tracked funclet parent as well.
\<close>

definition ResetGCRefReportingState :: "bool \<Rightarrow> StackFrameIterator \<Rightarrow> StackFrameIterator" where
  "ResetGCRefReportingState ResetOnlyIntermediaryState it =
    (let it1 =
           (if \<not> ResetOnlyIntermediaryState
            then it\<lparr>m_fFuncletNotSeen := False, m_sfFuncletParent := StackFrame_Null,
                    m_fProcessNonFilterFunclet := False\<rparr>
            else it)
     in it1\<lparr>m_sfIntermediaryFuncletParent := StackFrame_Null,
             m_fProcessIntermediaryNonFilterFunclet := False\<rparr>)"

text \<open>The local variables of one iteration of the loop of \<open>Filter\<close>.\<close>

record filter_locals =
  fStop :: bool
  fSkippingFunclet :: bool
  fRecheckCurrentFrame :: bool
  fSkipFuncletCallback :: bool

text \<open>
  The start of an iteration of the loop of \<open>Filter\<close> (lines 1614-1673): the bookkeeping
  on moving past the first \<open>ExInfo\<close>, the defaults of the reporting flags of the crawl
  frame, and \<open>fSkippingFunclet\<close>.
\<close>

definition Filter_begin ::
  "walk_env \<Rightarrow> StackFrameIterator \<Rightarrow> StackFrameIterator \<times> filter_locals"
where
  "Filter_begin env it =
    (let frameSP = (if m_frameState it = SFITER_FRAME_FUNCTION
                    then pFrame (m_crawl it) else SP (pRD (m_crawl it)));
         it1 =
           (case GetCurrentExceptionTracker env of
              None \<Rightarrow> it
            | Some pExInfo \<Rightarrow>
                if GC_FUNCLET_REFERENCE_REPORTING \<in> m_flags_it it \<and>
                   frameSP > exinfo_address pExInfo \<and> \<not> m_movedPastFirstExInfo it
                then
                  (if m_passNumber pExInfo = 2 \<and>
                      \<not> StackFrame_IsNull (m_csfEnclosingClause pExInfo) \<and>
                      StackFrame_IsNull (m_sfFuncletParent it) \<and>
                      m_lastReportedFunclet_IP pExInfo \<noteq> 0
                   then it\<lparr>m_sfFuncletParent := m_csfEnclosingClause pExInfo,
                           m_sfParent := m_csfEnclosingClause pExInfo,
                           m_fProcessNonFilterFunclet := True,
                           m_fDidFuncletReportGCReferences := False,
                           m_fFuncletNotSeen := True\<rparr>
                   else it)\<lparr>m_movedPastFirstExInfo := True\<rparr>
                else it);
         cf = (m_crawl it1)
                \<lparr>fShouldParentToFuncletReportSavedFuncletSlots := False,
                 fShouldParentToFuncletSkipReportingGCReferences := False,
                 fShouldCrawlframeReportGCReferences := True,
                 fShouldSaveFuncletInfo := False,
                 fShouldParentFrameUseUnwindTargetPCforGCReporting := False\<rparr>
     in (it1\<lparr>m_crawl := cf\<rparr>,
         \<lparr>fStop = False, fSkippingFunclet = (\<not> StackFrame_IsNull (m_sfParent it1)),
          fRecheckCurrentFrame = False, fSkipFuncletCallback = True\<rparr>))"

text \<open>
  The body of the \<open>do\<close> loop under the label \<open>ProcessFuncletsForGCReporting\<close> (lines
  1718-1862).
\<close>

definition ProcessFuncletsForGCReporting_body ::
  "walk_env \<Rightarrow> StackFrameIterator \<Rightarrow> filter_locals \<Rightarrow> StackFrameIterator \<times> filter_locals"
where
  "ProcessFuncletsForGCReporting_body env it loc0 =
    (if GC_FUNCLET_REFERENCE_REPORTING \<notin> m_flags_it it then (it, loc0)
     else
       (let loc = loc0\<lparr>fRecheckCurrentFrame := False\<rparr>
        in
        if \<not> StackFrame_IsNull (m_sfFuncletParent it) then
          (if \<not> m_fProcessNonFilterFunclet it \<and> \<not> m_fProcessIntermediaryNonFilterFunclet it
           then
             (if IsUnwoundToTargetParentFrame env (m_crawl it) (m_sfFuncletParent it)
              then
                (ResetGCRefReportingState False
                   (it\<lparr>m_crawl := (m_crawl it)
                          \<lparr>fShouldParentToFuncletSkipReportingGCReferences := False\<rparr>\<rparr>),
                 loc\<lparr>fRecheckCurrentFrame := True\<rparr>)
              else if IsFunclet (m_crawl it) then
                (let parent = FindParentStackFrameForStackWalk env (m_crawl it) True;
                     it1 = it\<lparr>m_sfIntermediaryFuncletParent := parent,
                              m_fProcessIntermediaryNonFilterFunclet := True,
                              m_sfParent := parent\<rparr>;
                     it2 = (if \<not> ExecutionManager_IsManagedCode env (CallerIP (pRD (m_crawl it1)))
                            then it1\<lparr>m_forceReportingWhileSkipping := LookForManagedFrame\<rparr>
                            else it1)
                 in (it2, loc\<lparr>fSkipFuncletCallback := False\<rparr>))
              else (it, loc))
           else (it, loc))
        else if IsFunclet (m_crawl it) then
          (let it1 = it\<lparr>m_sfFuncletParent :=
                            FindParentStackFrameForStackWalk env (m_crawl it) True\<rparr>;
               fFrameWasUnwound = HasFrameBeenUnwoundByAnyActiveException env (m_crawl it1)
           in if StackFrame_IsNull (m_sfFuncletParent it1) then (it1, loc)
              else
                (let (fIsFilterFunclet, cf) = IsFilterFunclet (m_crawl it1);
                     it2 = it1\<lparr>m_crawl := cf\<rparr>
                 in if \<not> fIsFilterFunclet then
                      (let it3 = it2\<lparr>m_fProcessNonFilterFunclet := True,
                                       m_sfParent := m_sfFuncletParent it2\<rparr>;
                           pExInfo_address =
                             (case GetCurrentExceptionTracker env of
                                None \<Rightarrow> 0 | Some ex \<Rightarrow> exinfo_address ex);
                           it4 =
                             (if \<not> m_fFoundFirstFunclet it3 \<and>
                                 pExInfo_address > SP (pRD (m_crawl it3)) \<and>
                                 m_sfParent it3 > pExInfo_address
                              then it3\<lparr>m_crawl := (m_crawl it3)\<lparr>fShouldSaveFuncletInfo := True\<rparr>,
                                       m_fFoundFirstFunclet := True\<rparr>
                              else it3);
                           it5 =
                             (if \<not> fFrameWasUnwound \<and>
                                 \<not> ExecutionManager_IsManagedCode env (CallerIP (pRD (m_crawl it4)))
                              then it4\<lparr>m_forceReportingWhileSkipping := LookForManagedFrame\<rparr>
                              else it4)
                       in (it5, loc\<lparr>fSkipFuncletCallback := False\<rparr>))
                    else (it2\<lparr>m_fProcessNonFilterFunclet := False\<rparr>, loc)))
        else (it, loc)))"

text \<open>
  What the rest of the \<open>SFITER_FRAMELESS_METHOD\<close> case ends with: a jump back to the
  label, or the decision whether to stop at this position.
\<close>

datatype filter_step =
    GotoProcessFuncletsForGCReporting StackFrameIterator filter_locals
  | FilterDecided bool StackFrameIterator

text \<open>
  Reaching the parent of a non-filter funclet at a frame that has not been unwound (lines
  1982-2054): what the parent is told about reporting. The arguments of the stress log
  statements are not evaluated in the model.
\<close>

definition ReachedParentOfNonFilterFunclet ::
  "walk_env \<Rightarrow> StackFrameIterator \<Rightarrow> StackFrameIterator"
where
  "ReachedParentOfNonFilterFunclet env it =
    (let (shouldSkipReporting, it1) =
           (if \<not> m_fDidFuncletReportGCReferences it then
              (case (case GetCurrentExceptionTracker env of
                       None \<Rightarrow> None
                     | Some pExInfo \<Rightarrow>
                         if m_sfCallerOfActualHandlerFrame pExInfo = m_sfFuncletParent it
                         then Some pExInfo else None) of
                 Some pExInfo \<Rightarrow>
                   (False,
                    it\<lparr>m_fDidFuncletReportGCReferences := True,
                       m_crawl := (m_crawl it)
                         \<lparr>fShouldParentFrameUseUnwindTargetPCforGCReporting := True,
                          ehClauseForCatch := m_ClauseForCatch pExInfo\<rparr>\<rparr>)
               | None \<Rightarrow>
                   if \<not> IsFunclet (m_crawl it) then
                     (True,
                      (if m_fFuncletNotSeen it
                       then it\<lparr>m_crawl := (m_crawl it)
                                  \<lparr>fShouldParentToFuncletReportSavedFuncletSlots := True\<rparr>,
                               m_fFuncletNotSeen := False\<rparr>
                       else it)\<lparr>m_fDidFuncletReportGCReferences := True\<rparr>)
                   else (True, it))
            else (True, it));
         it2 = it1\<lparr>m_crawl := (m_crawl it1)
                      \<lparr>fShouldParentToFuncletSkipReportingGCReferences := shouldSkipReporting\<rparr>\<rparr>
     in ResetGCRefReportingState (m_fProcessIntermediaryNonFilterFunclet it2) it2)"

text \<open>
  The frame is skipped because it has been unwound (\<open>fSkipFrameDueToUnwind\<close>, lines
  1913-1968).
\<close>

definition Filter_SkipFrameDueToUnwind ::
  "walk_env \<Rightarrow> StackFrameIterator \<Rightarrow> filter_locals \<Rightarrow> filter_step"
where
  "Filter_SkipFrameDueToUnwind env it loc =
    (if GC_FUNCLET_REFERENCE_REPORTING \<in> m_flags_it it \<and>
        \<not> StackFrame_IsNull (m_sfParent it) \<and>
        (StackFrame_IsMaxVal (m_sfParent it) \<or>
         IsUnwoundToTargetParentFrame env (m_crawl it) (m_sfParent it))
     then
       (let loc1 = loc\<lparr>fSkippingFunclet := False\<rparr>;
            it1 =
              (if m_fProcessIntermediaryNonFilterFunclet it \<or> m_fProcessNonFilterFunclet it
               then
                 (let it' = it\<lparr>m_crawl := (m_crawl it)
                                  \<lparr>fShouldParentToFuncletSkipReportingGCReferences := True\<rparr>,
                               m_fDidFuncletReportGCReferences := True\<rparr>
                  in ResetGCRefReportingState (m_fProcessIntermediaryNonFilterFunclet it') it')
               else it);
            it2 = it1\<lparr>m_sfParent := StackFrame_Null\<rparr>
        in if IsFunclet (m_crawl it2)
           then GotoProcessFuncletsForGCReporting it2 (loc1\<lparr>fRecheckCurrentFrame := True\<rparr>)
           else FilterDecided (\<not> fShouldCrawlframeReportGCReferences (m_crawl it2)) it2)
     else FilterDecided (\<not> fShouldCrawlframeReportGCReferences (m_crawl it)) it)"

text \<open>The frame has not been unwound (lines 1969-2137).\<close>

definition Filter_FrameNotUnwound ::
  "walk_env \<Rightarrow> StackFrameIterator \<Rightarrow> filter_locals \<Rightarrow> filter_step"
where
  "Filter_FrameNotUnwound env it loc =
    (let flags = m_flags_it it;
         it1 =
           (if \<not> StackFrame_IsNull (m_sfParent it) \<and>
               (StackFrame_IsMaxVal (m_sfParent it) \<or>
                IsUnwoundToTargetParentFrame env (m_crawl it) (m_sfParent it))
            then
              (if m_fProcessIntermediaryNonFilterFunclet it \<or> m_fProcessNonFilterFunclet it
               then ReachedParentOfNonFilterFunclet env it
               else it)\<lparr>m_sfParent := StackFrame_Null\<rparr>
            else it)
     in
     if StackFrame_IsNull (m_sfParent it1) \<and> IsFunclet (m_crawl it1) \<and>
        GC_FUNCLET_REFERENCE_REPORTING \<in> flags
     then GotoProcessFuncletsForGCReporting it1 (loc\<lparr>fRecheckCurrentFrame := True\<rparr>)
     else
       (let it2 =
              (if StackFrame_IsNull (m_sfParent it1) \<and> IsFunclet (m_crawl it1)
               then it1\<lparr>m_sfParent := FindParentStackFrameForStackWalk env (m_crawl it1) False\<rparr>
               else it1)
        in
        if FUNCTIONSONLY \<in> flags \<or> SKIPFUNCLETS \<in> flags then
          (if \<not> StackFrame_IsNull (m_sfParent it2) \<or> pFunc_IsILStub (m_crawl it2)
           then FilterDecided False it2
           else FilterDecided True it2)
        else if fSkipFuncletCallback loc \<and> GC_FUNCLET_REFERENCE_REPORTING \<in> flags then
          (if \<not> StackFrame_IsNull (m_sfParent it2) \<and> m_forceReportingWhileSkipping it2 = Off
           then FilterDecided False it2
           else FilterDecided True
                  (if m_forceReportingWhileSkipping it2 = LookForManagedFrame
                   then it2\<lparr>m_forceReportingWhileSkipping := LookForMarkerFrame\<rparr>
                   else it2))
        else FilterDecided True it2))"

text \<open>
  The \<open>SFITER_FRAMELESS_METHOD\<close> case after the \<open>do\<close> loop (lines 1866-2169).
\<close>

definition Filter_frameless_rest ::
  "walk_env \<Rightarrow> StackFrameIterator \<Rightarrow> filter_locals \<Rightarrow> filter_step"
where
  "Filter_frameless_rest env it loc =
    (let flags = m_flags_it it
     in
     if m_fProcessNonFilterFunclet it \<or> m_fProcessIntermediaryNonFilterFunclet it \<or>
        FUNCTIONSONLY \<in> flags \<or> SKIPFUNCLETS \<in> flags
     then
       (if GC_FUNCLET_REFERENCE_REPORTING \<in> flags then
          (if HasFrameBeenUnwoundByAnyActiveException env (m_crawl it) then
             (let it1 = it\<lparr>m_crawl := (m_crawl it)
                              \<lparr>fShouldCrawlframeReportGCReferences := False\<rparr>\<rparr>;
                  it2 = (if IsFunclet (m_crawl it1) \<and> \<not> fSkippingFunclet loc
                         then it1\<lparr>m_fDidFuncletReportGCReferences := False\<rparr>
                         else it1)
              in Filter_SkipFrameDueToUnwind env it2 loc)
           else Filter_FrameNotUnwound env it loc)
        else if (FUNCTIONSONLY \<in> flags \<or> SKIPFUNCLETS \<in> flags) \<and>
                IsInStackRegionUnwoundByCurrentException env (m_crawl it)
        then Filter_SkipFrameDueToUnwind env it loc
        else Filter_FrameNotUnwound env it loc)
     else if GC_FUNCLET_REFERENCE_REPORTING \<in> flags \<and>
             HasFrameBeenUnwoundByAnyActiveException env (m_crawl it)
     then FilterDecided True
            (it\<lparr>m_crawl := (m_crawl it)\<lparr>fShouldCrawlframeReportGCReferences := False\<rparr>\<rparr>)
     else FilterDecided True it)"

text \<open>
  The whole \<open>SFITER_FRAMELESS_METHOD\<close> case: the \<open>do\<close> loop, repeated while
  \<open>fRecheckCurrentFrame\<close> is set, then the rest, which may jump back to the label. The
  result is \<open>fStop\<close> and the iterator.
\<close>

partial_function (option) Filter_frameless ::
  "walk_env \<Rightarrow> StackFrameIterator \<Rightarrow> filter_locals \<Rightarrow> (bool \<times> StackFrameIterator) option"
where
  "Filter_frameless env it loc =
    (let r = ProcessFuncletsForGCReporting_body env it loc
     in if fRecheckCurrentFrame (snd r) then Filter_frameless env (fst r) (snd r)
        else
          (case Filter_frameless_rest env (fst r) (snd r) of
             GotoProcessFuncletsForGCReporting it2 loc2 \<Rightarrow> Filter_frameless env it2 loc2
           | FilterDecided stop it2 \<Rightarrow> Some (stop, it2)))"

text \<open>
  The other cases of the \<open>switch\<close> (lines 2171-2247). The \<open>default\<close> case is
  \<open>UNREACHABLE()\<close>: the process does not go on.
\<close>

definition Filter_other_states ::
  "walk_env \<Rightarrow> StackFrameIterator \<Rightarrow> filter_locals \<Rightarrow> process_exit + bool \<times> StackFrameIterator"
where
  "Filter_other_states env it loc =
    (let flags = m_flags_it it
     in
     if m_frameState it = SFITER_FRAME_FUNCTION \<or>
        m_frameState it = SFITER_SKIPPED_FRAME_FUNCTION
     then
       (if fSkippingFunclet loc then Inr (False, it)
        else if GC_FUNCLET_REFERENCE_REPORTING \<in> flags then
          (let it1 = (if HasFrameBeenUnwoundByAnyActiveException env (m_crawl it)
                      then it\<lparr>m_crawl := (m_crawl it)
                                 \<lparr>fShouldCrawlframeReportGCReferences := False\<rparr>\<rparr>
                      else it)
           in Inr (pFunc (m_crawl it1) \<noteq> None \<or> FUNCTIONSONLY \<notin> flags, it1))
        else if (FUNCTIONSONLY \<in> flags \<or> SKIPFUNCLETS \<in> flags) \<and>
                IsInStackRegionUnwoundByCurrentException env (m_crawl it)
        then Inr (False, it)
        else Inr (pFunc (m_crawl it) \<noteq> None \<or> FUNCTIONSONLY \<notin> flags, it))
     else if m_frameState it = SFITER_NO_FRAME_TRANSITION then
       Inr (\<not> fSkippingFunclet loc \<and> NOTIFY_ON_NO_FRAME_TRANSITIONS \<in> flags, it)
     else if m_frameState it = SFITER_NATIVE_MARKER_FRAME then
       Inr (\<not> fSkippingFunclet loc \<and> NOTIFY_ON_U2M_TRANSITIONS \<in> flags,
            if m_forceReportingWhileSkipping it = LookForMarkerFrame
            then it\<lparr>m_forceReportingWhileSkipping := Off\<rparr> else it)
     else if m_frameState it = SFITER_INITIAL_NATIVE_CONTEXT then
       Inr (\<not> fSkippingFunclet loc \<and> NOTIFY_ON_INITIAL_NATIVE_CONTEXT \<in> flags, it)
     else Inl AssertionFailure)"

text \<open>
  The loop of \<open>StackFrameIterator::Filter\<close> (lines 1612-2265), with \<open>retVal\<close> as its
  argument, and \<open>Filter\<close> itself.
\<close>

partial_function (option) Filter_loop ::
  "build \<Rightarrow> walk_env \<Rightarrow> memory \<Rightarrow> StackFrameIterator \<Rightarrow> StackWalkAction \<Rightarrow>
   (process_exit + StackWalkAction \<times> StackFrameIterator) option"
where
  "Filter_loop bld env mem it retVal =
    (if \<not> IsValid it then Some (Inr (retVal, it))
     else
       (let b = Filter_begin env it
        in case (if m_frameState (fst b) = SFITER_FRAMELESS_METHOD
                 then map_option Inr (Filter_frameless env (fst b) (snd b))
                 else Some (Filter_other_states env (fst b) (snd b))) of
             None \<Rightarrow> None
           | Some (Inl e) \<Rightarrow> Some (Inl e)
           | Some (Inr (stop, it2)) \<Rightarrow>
               if stop then Some (Inr (retVal, it2))
               else
                 (case NextRaw bld env mem it2 of
                    None \<Rightarrow> None
                  | Some (Inl e) \<Rightarrow> Some (Inl e)
                  | Some (Inr (rv, it3)) \<Rightarrow>
                      if rv \<noteq> SWA_CONTINUE then Some (Inr (rv, it3))
                      else Filter_loop bld env mem it3 rv)))"

definition Filter ::
  "build \<Rightarrow> walk_env \<Rightarrow> memory \<Rightarrow> StackFrameIterator \<Rightarrow>
   (process_exit + StackWalkAction \<times> StackFrameIterator) option"
where
  "Filter bld env mem it = Filter_loop bld env mem it SWA_CONTINUE"

text \<open>\<open>StackFrameIterator::Next\<close> (lines 1565-1585).\<close>

definition Next ::
  "build \<Rightarrow> walk_env \<Rightarrow> memory \<Rightarrow> StackFrameIterator \<Rightarrow>
   (process_exit + StackWalkAction \<times> StackFrameIterator) option"
where
  "Next bld env mem it =
    (if \<not> IsValid it then Some (Inr (SWA_FAILED, it))
     else
       (case NextRaw bld env mem it of
          None \<Rightarrow> None
        | Some (Inl e) \<Rightarrow> Some (Inl e)
        | Some (Inr (retVal, it1)) \<Rightarrow>
            if retVal = SWA_CONTINUE then Filter bld env mem it1
            else Some (Inr (retVal, it1))))"

subsection \<open>The driver\<close>

text \<open>
  \<open>CrawlFrame::CrawlFrame\<close> (lines 25-30), \<open>StackFrameIterator::CommonCtor\<close> (lines
  1015-1059) and the default constructor (lines 974-979), which passes the flags
  \<open>0xbaadf00d\<close>; \<open>Init\<close> overwrites them before anything reads them. The argument is
  the storage the object is constructed in: the constructors leave the other fields as
  they find them. The record of log lines starts empty.
\<close>

definition CrawlFrame_ctor :: "CrawlFrame \<Rightarrow> CrawlFrame" where
  "CrawlFrame_ctor cf = cf\<lparr>pCurGSCookie := 0, pFirstGSCookie := 0\<rparr>"

definition CommonCtor ::
  "TADDR \<Rightarrow> StackwalkFlag set \<Rightarrow> StackFrameIterator \<Rightarrow> StackFrameIterator"
where
  "CommonCtor pFrame_arg flags it =
    (let it1 = it\<lparr>m_frameState := SFITER_UNINITIALIZED, m_pStartFrame := pFrame_arg,
                   m_flags_it := flags, m_pCachedGSCookie := 0,
                   m_sfParent := StackFrame_Null\<rparr>;
         it2 = ResetGCRefReportingState False it1
     in it2\<lparr>m_fDidFuncletReportGCReferences := True,
             m_forceReportingWhileSkipping := Off,
             m_movedPastFirstExInfo := False,
             m_fFuncletNotSeen := False,
             m_fFoundFirstFunclet := False,
             m_pvResumableFrameTargetSP := 0\<rparr>)"

definition StackFrameIterator_ctor ::
  "StackwalkFlag set \<Rightarrow> StackFrameIterator \<Rightarrow> StackFrameIterator"
where
  "StackFrameIterator_ctor baadf00d storage =
    CommonCtor 0 baadf00d (storage\<lparr>m_crawl := CrawlFrame_ctor (m_crawl storage), m_log := []\<rparr>)"

text \<open>\<open>StackFrameIterator::ResetCrawlFrame\<close> (lines 1379-1410).\<close>

definition ResetCrawlFrame :: "StackFrameIterator \<Rightarrow> StackFrameIterator" where
  "ResetCrawlFrame it =
    it\<lparr>m_crawl := (m_crawl it)
          \<lparr>isFirst := True, isInterrupted := False, hasFaulted := False, isIPadjusted := False,
           isNativeMarker := False,
           isProfilerDoStackSnapshot := (PROFILER_DO_STACK_SNAPSHOT \<in> m_flags_it it),
           isNoFrameTransition := False,
           taNoFrameTransitionMarker := 0,
           isFilterFunclet := False,
           isFilterFuncletCached := False,
           fShouldParentToFuncletSkipReportingGCReferences := False,
           fShouldParentFrameUseUnwindTargetPCforGCReporting := False,
           fShouldSaveFuncletInfo := False,
           fShouldParentToFuncletReportSavedFuncletSlots := False,
           pCurGSCookie := 0,
           pFirstGSCookie := 0\<rparr>\<rparr>"

text \<open>
  \<open>StackFrameIterator::Init\<close> (lines 1085-1183): the returned \<open>BOOL\<close> and the
  iterator.
\<close>

definition Init ::
  "build \<Rightarrow> walk_env \<Rightarrow> memory \<Rightarrow> TADDR \<Rightarrow> REGDISPLAY \<Rightarrow> StackwalkFlag set \<Rightarrow>
   StackFrameIterator \<Rightarrow> (process_exit + bool \<times> StackFrameIterator) option"
where
  "Init bld env mem pFrame_arg pRegDisp flags it =
    (let it1 = ResetCrawlFrame (it\<lparr>m_frameState := SFITER_UNINITIALIZED, m_flags_it := flags\<rparr>);
         it2 = it1\<lparr>m_pStartFrame := pFrame_arg,
                   m_crawl := (m_crawl it1)
                     \<lparr>pFrame := (if pFrame_arg \<noteq> 0 then pFrame_arg else Thread_GetFrame env),
                      pRD := pRegDisp\<rparr>\<rparr>;
         it3 = ProcessIp env (ControlPC (pRD (m_crawl it2))) it2;
         it4 = (if isFrameless (m_crawl it3) \<and> EXCEPTION_ACTIVE (pRD (m_crawl it3))
                then it3\<lparr>m_crawl := (m_crawl it3)\<lparr>hasFaulted := True\<rparr>\<rparr>
                else it3)
     in case ProcessCurrentFrame bld env mem it4 of
          None \<Rightarrow> None
        | Some (Inl e) \<Rightarrow> Some (Inl e)
        | Some (Inr it5) \<Rightarrow>
            (case Filter bld env mem it5 of
               None \<Rightarrow> None
             | Some (Inl e) \<Rightarrow> Some (Inl e)
             | Some (Inr (retVal, it6)) \<Rightarrow> Some (Inr (retVal = SWA_CONTINUE, it6))))"

text \<open>
  A callback is given the crawl frame and its data, and may write to memory while it
  runs: it returns its \<open>StackWalkAction\<close>, the data and the memory as it leaves them.
\<close>

type_synonym 'd STACKWALKFRAMESCALLBACK =
  "CrawlFrame \<Rightarrow> 'd \<Rightarrow> memory \<Rightarrow> StackWalkAction \<times> 'd \<times> memory"

text \<open>\<open>Thread::MakeStackwalkerCallback\<close> (lines 784-816).\<close>

definition MakeStackwalkerCallback ::
  "walk_env \<Rightarrow> CrawlFrame \<Rightarrow> 'd STACKWALKFRAMESCALLBACK \<Rightarrow> 'd \<Rightarrow> memory \<Rightarrow>
   process_exit + StackWalkAction \<times> 'd \<times> memory"
where
  "MakeStackwalkerCallback env pCF pCallback pData mem =
    (case CheckGSCookies env mem pCF of
       Inl e \<Rightarrow> Inl e
     | Inr _ \<Rightarrow>
         (let r = pCallback pCF pData mem
          in case CheckGSCookies env (snd (snd r)) pCF of
               Inl e \<Rightarrow> Inl e
             | Inr _ \<Rightarrow> Inr r))"

text \<open>
  The loop of \<open>Thread::StackWalkFramesEx\<close> (lines 878-893), with \<open>retVal\<close> as its
  argument. The result is \<open>retVal\<close> with the iterator, the callback's data and the
  memory at the end.
\<close>

partial_function (option) StackWalkFramesEx_loop ::
  "build \<Rightarrow> walk_env \<Rightarrow> 'd STACKWALKFRAMESCALLBACK \<Rightarrow> StackFrameIterator \<Rightarrow> 'd \<Rightarrow> memory \<Rightarrow>
   StackWalkAction \<Rightarrow>
   (process_exit + StackWalkAction \<times> StackFrameIterator \<times> 'd \<times> memory) option"
where
  "StackWalkFramesEx_loop bld env pCallback iter pData mem retVal =
    (if \<not> IsValid iter then Some (Inr (retVal, iter, pData, mem))
     else
       (case MakeStackwalkerCallback env (m_crawl iter) pCallback pData mem of
          Inl e \<Rightarrow> Some (Inl e)
        | Inr (swa, pData1, mem1) \<Rightarrow>
            if swa = SWA_ABORT then Some (Inr (swa, iter, pData1, mem1))
            else
              (case Next bld env mem1 iter of
                 None \<Rightarrow> None
               | Some (Inl e) \<Rightarrow> Some (Inl e)
               | Some (Inr (rv, iter1)) \<Rightarrow>
                   if rv = SWA_FAILED then Some (Inr (rv, iter1, pData1, mem1))
                   else StackWalkFramesEx_loop bld env pCallback iter1 pData1 mem1 rv)))"

text \<open>
  \<open>Thread::StackWalkFramesEx\<close> (lines 823-900). \<open>None\<close>: the walk does not end;
  \<open>Some (Inl e)\<close>: the process ends inside the walk; \<open>Some (Inr r)\<close>: the walk returns.
\<close>

definition StackWalkFramesEx ::
  "build \<Rightarrow> walk_env \<Rightarrow> StackFrameIterator \<Rightarrow> memory \<Rightarrow> REGDISPLAY \<Rightarrow>
   'd STACKWALKFRAMESCALLBACK \<Rightarrow> 'd \<Rightarrow> StackwalkFlag set \<Rightarrow> TADDR \<Rightarrow>
   (process_exit + StackWalkAction \<times> StackFrameIterator \<times> 'd \<times> memory) option"
where
  "StackWalkFramesEx bld env storage mem pRD_arg pCallback pData flags pStartFrame =
    (case Init bld env mem pStartFrame pRD_arg flags
            (StackFrameIterator_ctor {} storage) of
       None \<Rightarrow> None
     | Some (Inl e) \<Rightarrow> Some (Inl e)
     | Some (Inr (ok, iter)) \<Rightarrow>
         if ok then StackWalkFramesEx_loop bld env pCallback iter pData mem SWA_FAILED
         else Some (Inr (SWA_FAILED, iter, pData, mem)))"

text \<open>
  The state in which the loop of \<open>StackWalkFramesEx\<close> arrives at the position that
  follows \<open>k\<close> surfaced positions: each of those has been delivered to the callback,
  which returned without asking to abort, and \<open>Next\<close> has advanced past it without
  failing. \<open>None\<close> when the walk does not get that far.
\<close>

primrec position_after ::
  "build \<Rightarrow> walk_env \<Rightarrow> 'd STACKWALKFRAMESCALLBACK \<Rightarrow> nat \<Rightarrow> StackFrameIterator \<Rightarrow> 'd \<Rightarrow> memory \<Rightarrow>
   (StackFrameIterator \<times> 'd \<times> memory) option"
where
  "position_after bld env pCallback 0 iter pData mem =
    (if IsValid iter then Some (iter, pData, mem) else None)"
| "position_after bld env pCallback (Suc k) iter pData mem =
    (if \<not> IsValid iter then None
     else
       (case MakeStackwalkerCallback env (m_crawl iter) pCallback pData mem of
          Inl e \<Rightarrow> None
        | Inr (swa, pData1, mem1) \<Rightarrow>
            if swa = SWA_ABORT then None
            else
              (case Next bld env mem1 iter of
                 Some (Inr (rv, iter1)) \<Rightarrow>
                   if rv = SWA_FAILED then None
                   else position_after bld env pCallback k iter1 pData1 mem1
               | _ \<Rightarrow> None)))"


subsection \<open>An example stack\<close>

text \<open>
  A thread whose leaf frame is managed code of method 1 at \<open>0x1000\<close>, called from method
  2 at \<open>0x2000\<close>, called from native code at \<open>0x3000\<close>. Every frame is \<open>0x100\<close> bytes,
  the leaf's stack pointer is \<open>0x7000\<close>, and every managed frame keeps a GS cookie at
  offset \<open>0x10\<close>. The thread's stack is \<open>[0x6000, 0x8000)\<close>. There is no explicit frame
  and no exception in flight.
\<close>

definition example_MethodDesc :: "nat \<Rightarrow> MethodDesc" where
  "example_MethodDesc n = \<lparr>md_token = n, md_IsILStub = False, md_HasMDContextArg = False\<rparr>"

definition example_code :: "nat \<Rightarrow> EECodeInfo" where
  "example_code n =
    \<lparr>ci_IsValid = True, ci_MethodDesc = example_MethodDesc n,
     ci_IsFunclet = False, ci_IsFilterFunclet = False\<rparr>"

definition example_no_code :: EECodeInfo where
  "example_no_code =
    \<lparr>ci_IsValid = False, ci_MethodDesc = example_MethodDesc 0,
     ci_IsFunclet = False, ci_IsFilterFunclet = False\<rparr>"

definition example_regs :: "TADDR \<Rightarrow> TADDR \<Rightarrow> REGDISPLAY" where
  "example_regs ip sp =
    \<lparr>ControlPC = ip, SP = sp, CallerSP = sp + 0x100, CallerIP = ip + 0x1000,
     IsCallerContextValid = True, EXCEPTION_ACTIVE = False\<rparr>"

definition example_Frame :: Frame where
  "example_Frame =
    \<lparr>frame_Next = FRAME_TOP, frame_Identifier = OtherFrame 0, frame_Attribs = {},
     frame_ReturnAddress = 0, frame_Function = None,
     frame_UpdateRegDisplay = (\<lambda>rd. rd), frame_HasActiveCall = False,
     frame_ActualInteropMethodDesc = None\<rparr>"

definition example_env :: walk_env where
  "example_env =
    \<lparr>EECodeInfo_Init =
       (\<lambda>ip. if ip = 0x1000 then example_code 1
             else if ip = 0x2000 then example_code 2 else example_no_code),
     ExecutionManager_IsManagedCode = (\<lambda>ip. ip = 0x1000 \<or> ip = 0x2000),
     UnwindStackFrame =
       (\<lambda>cf ci flags.
          if ci_IsValid ci
          then (True, example_regs (ControlPC (pRD cf) + 0x1000) (SP (pRD cf) + 0x100))
          else (False, pRD cf)),
     EnsureCallerContextIsValid = (\<lambda>rd ci. rd),
     GetGSCookieAddr = (\<lambda>rd ci. SP rd + 0x10),
     FrameAt = (\<lambda>a. example_Frame),
     Thread_GetFrame = FRAME_TOP,
     IsExecutingOnAltStack = False,
     GetCachedStackLimit = 0x6000,
     GetCachedStackBase = 0x8000,
     GetProcessGSCookie = 0xC00C1E,
     GetCurrentExceptionTracker = None,
     FindParentStackFrameForStackWalk = (\<lambda>cf fForGCReporting. SP (pRD cf) + 0x200),
     HasFrameBeenUnwoundByAnyActiveException = (\<lambda>cf. False),
     IsUnwoundToTargetParentFrame = (\<lambda>cf sf. CallerSP (pRD cf) = sf),
     IsInStackRegionUnwoundByCurrentException = (\<lambda>cf. False)\<rparr>"

text \<open>Memory in which every GS cookie is intact.\<close>

definition example_memory :: memory where
  "example_memory = (\<lambda>a. 0xC00C1E)"

text \<open>A release build that processes explicit frames before the managed frame.\<close>

definition example_build :: build where
  "example_build =
    \<lparr>PROCESS_EXPLICIT_FRAME_BEFORE_MANAGED_FRAME = True, RECORD_RESUMABLE_FRAME_SP = True,
     NO_FIXED_STACK_LIMIT = False, CHECKED = False\<rparr>"

text \<open>The storage an iterator is constructed in, before the constructor has run.\<close>

definition example_storage :: StackFrameIterator where
  "example_storage =
    \<lparr>m_frameState = SFITER_DONE,
     m_crawl =
       \<lparr>pFrame = 0, pRD = example_regs 0 0, pFunc = None, codeInfo = example_no_code,
        isFrameless = False, isFirst = False, isInterrupted = False, hasFaulted = False,
        isIPadjusted = False, isNativeMarker = False, isProfilerDoStackSnapshot = False,
        isNoFrameTransition = False, taNoFrameTransitionMarker = 0,
        isFilterFunclet = False, isFilterFuncletCached = False,
        fShouldParentToFuncletSkipReportingGCReferences = False,
        fShouldCrawlframeReportGCReferences = False,
        fShouldParentFrameUseUnwindTargetPCforGCReporting = False,
        fShouldSaveFuncletInfo = False,
        fShouldParentToFuncletReportSavedFuncletSlots = False,
        ehClauseForCatch = 0, pCurGSCookie = 0xDEAD, pFirstGSCookie = 0xDEAD\<rparr>,
     m_flags_it = {},
     m_pStartFrame = 0,
     m_cachedCodeInfo = example_no_code,
     m_pCachedGSCookie = 0,
     m_sfParent = 0,
     m_sfFuncletParent = 0,
     m_sfIntermediaryFuncletParent = 0,
     m_fProcessNonFilterFunclet = False,
     m_fProcessIntermediaryNonFilterFunclet = False,
     m_fDidFuncletReportGCReferences = False,
     m_forceReportingWhileSkipping = Off,
     m_movedPastFirstExInfo = False,
     m_fFuncletNotSeen = False,
     m_fFoundFirstFunclet = False,
     m_pvResumableFrameTargetSP = 0,
     m_log = []\<rparr>"

text \<open>
  The iterator stopped at a frameless position of method \<open>n\<close>, with the given control
  PC and stack pointer, in a walk with the given flags that has not met a funclet.
\<close>

definition example_position ::
  "TADDR \<Rightarrow> TADDR \<Rightarrow> nat \<Rightarrow> StackwalkFlag set \<Rightarrow> StackFrameIterator"
where
  "example_position ip sp n flags =
    example_storage
      \<lparr>m_frameState := SFITER_FRAMELESS_METHOD,
       m_crawl := (m_crawl example_storage)
         \<lparr>pFrame := FRAME_TOP, pRD := example_regs ip sp,
          pFunc := Some (example_MethodDesc n), codeInfo := example_code n,
          isFrameless := True, fShouldCrawlframeReportGCReferences := True,
          pCurGSCookie := 0, pFirstGSCookie := 0\<rparr>,
       m_flags_it := flags,
       m_cachedCodeInfo := example_code n,
       m_fDidFuncletReportGCReferences := True\<rparr>"

text \<open>
  Callbacks. Each records, for the position it is given, the method and whether the
  position is to report its GC references (\<open>fShouldCrawlframeReportGCReferences\<close> and not
  \<open>fShouldParentToFuncletSkipReportingGCReferences\<close>). The first always continues, the
  second aborts at method \<open>n\<close>, and the third does what the second does after overwriting
  the GS cookie of the leaf frame.
\<close>

definition example_visit :: "CrawlFrame \<Rightarrow> nat \<times> bool" where
  "example_visit pCF =
    (case pFunc pCF of Some md \<Rightarrow> md_token md | None \<Rightarrow> 0,
     fShouldCrawlframeReportGCReferences pCF \<and>
     \<not> fShouldParentToFuncletSkipReportingGCReferences pCF)"

definition example_callback :: "(nat \<times> bool) list STACKWALKFRAMESCALLBACK" where
  "example_callback pCF pData mem = (SWA_CONTINUE, pData @ [example_visit pCF], mem)"

definition example_callback_abort :: "nat \<Rightarrow> (nat \<times> bool) list STACKWALKFRAMESCALLBACK" where
  "example_callback_abort n pCF pData mem =
    (if fst (example_visit pCF) = n then SWA_ABORT else SWA_CONTINUE,
     pData @ [example_visit pCF], mem)"

definition example_callback_smash :: "nat \<Rightarrow> (nat \<times> bool) list STACKWALKFRAMESCALLBACK" where
  "example_callback_smash n pCF pData mem =
    (if fst (example_visit pCF) = n then SWA_ABORT else SWA_CONTINUE,
     pData @ [example_visit pCF], mem(0x7010 := 0))"

text \<open>
  The example thread with an unwinder that succeeds on the leaf frame and fails on its
  caller.
\<close>

definition example_env_unwind_fails :: walk_env where
  "example_env_unwind_fails =
    example_env
      \<lparr>UnwindStackFrame :=
         (\<lambda>cf ci flags.
            if ControlPC (pRD cf) = 0x1000 then (True, example_regs 0x2000 0x7100)
            else (False, pRD cf))\<rparr>"


(*DEFS-END*)

section \<open>Properties of the patchpoint helper\<close>

lemma osr_example_amd64:
  "JIT_PatchpointWorkerWorkerWithPolicy target_windows_amd64 osr_env_example 0x2000 1 5 =
     Some (Transitioned \<lparr>Ip = 0x5000, Sp = 0x6FF8, Fp = 0x7040, Ssp = 0, OtherRegs = [3]\<rparr> 5)"
  by (simp add: JIT_PatchpointWorkerWorkerWithPolicy_def PatchpointTransition_def Let_def
        SetLastError_def osr_env_example_def target_windows_amd64_def CapturedContext_def
        VirtualUnwindToFirstManagedCallFrame_def VirtualUnwindToFirstManagedCallFrame_loop.simps)

lemma osr_example_arm64:
  "JIT_PatchpointWorkerWorkerWithPolicy target_linux_arm64 osr_env_example 0x2000 1 5 =
     Some (Transitioned \<lparr>Ip = 0x5000, Sp = 0x7000, Fp = 0x7200, Ssp = 0, OtherRegs = [3]\<rparr> 5)"
  by (simp add: JIT_PatchpointWorkerWorkerWithPolicy_def PatchpointTransition_def Let_def
        SetLastError_def osr_env_example_def target_linux_arm64_def CapturedContext_def
        VirtualUnwindToFirstManagedCallFrame_def VirtualUnwindToFirstManagedCallFrame_loop.simps)

lemma osr_example_frame_amd64:
  "VirtualUnwindToFirstManagedCallFrame target_windows_amd64 osr_env_example
     (CapturedContext target_windows_amd64 osr_env_example) =
   Some (Inr (0x2000, \<lparr>Ip = 0x2000, Sp = 0x7000, Fp = 0x7040, Ssp = 0, OtherRegs = [2]\<rparr>))"
  by (simp add: osr_env_example_def target_windows_amd64_def CapturedContext_def
        VirtualUnwindToFirstManagedCallFrame_def VirtualUnwindToFirstManagedCallFrame_loop.simps)

lemma osr_example_frame_arm64:
  "VirtualUnwindToFirstManagedCallFrame target_linux_arm64 osr_env_example
     (CapturedContext target_linux_arm64 osr_env_example) =
   Some (Inr (0x2000, \<lparr>Ip = 0x2000, Sp = 0x7000, Fp = 0x7040, Ssp = 0, OtherRegs = [2]\<rparr>))"
  by (simp add: osr_env_example_def target_linux_arm64_def CapturedContext_def
        VirtualUnwindToFirstManagedCallFrame_def VirtualUnwindToFirstManagedCallFrame_loop.simps)

lemma JIT_Transitioned:
  assumes "JIT_PatchpointWorkerWorkerWithPolicy tgt env ip counter lastError =
             Some (Transitioned ctx e)"
  shows "\<exists>code. (if counter = 0 then PatchpointRequiredPolicy_result env
            else PatchpointOptimizationPolicy_result env) = PolicyReturns code \<and> code \<noteq> 0 \<and>
          PatchpointTransition tgt env ip code lastError (LastError_after env Call_Policy lastError)
            = Some (Transitioned ctx e)"
  using assms
  by (auto simp: JIT_PatchpointWorkerWorkerWithPolicy_def Let_def
      split: policy_result.splits if_splits)

lemma PatchpointTransition_Transitioned:
  assumes "PatchpointTransition tgt env ip code dw le = Some (Transitioned ctx e)"
  shows "\<exists>pc frame.
           VirtualUnwindToFirstManagedCallFrame tgt env (CapturedContext tgt env) =
             Some (Inr (pc, frame)) \<and>
           ctx = (let ctx2 = RtlVirtualUnwind env frame;
                      ctx3 = (if TARGET_AMD64 tgt \<and> TARGET_WINDOWS tgt \<and> Ssp ctx2 \<noteq> 0
                           then ctx2\<lparr>Ssp := Ssp ctx2 - 8\<rparr> else ctx2);
                      ctx4 = (if TARGET_AMD64 tgt then ctx3\<lparr>Fp := Fp frame\<rparr> else ctx3)
                  in ctx4\<lparr>Sp := (if TARGET_AMD64 tgt then Sp frame - 8 else Sp frame), Ip := code\<rparr>) \<and>
           e = dw"
proof (cases "VirtualUnwindToFirstManagedCallFrame tgt env (CapturedContext tgt env)")
  case None
  with assms show ?thesis by (simp add: PatchpointTransition_def Let_def)
next
  case (Some r)
  show ?thesis
  proof (cases r)
    case (Inl u)
    with Some assms show ?thesis by (simp add: PatchpointTransition_def Let_def)
  next
    case (Inr pf)
    obtain pc frame where pf: "pf = (pc, frame)" by (cases pf)
    from assms Some Inr pf show ?thesis
      by (auto simp: PatchpointTransition_def Let_def SetLastError_def split: if_splits)
  qed
qed

text \<open>
  Claim C8, as stated: the stack pointer and the frame pointer captured from the original
  method's frame are both carried unchanged into the context the optimized code is
  entered with. This fails. On AMD64 the helper subtracts 8 from the captured stack
  pointer (it simulates the return address a call would have pushed): the frame captured
  with \<open>SP = 0x7000\<close> is entered with \<open>SP = 0x6FF8\<close>. On a target other than AMD64
  the helper never writes the captured frame pointer back: the frame captured with
  \<open>FP = 0x7040\<close> is entered with the \<open>FP = 0x7200\<close> that unwinding to the caller
  produced.
\<close>

theorem osr_sp_fp_not_preserved:
  "JIT_PatchpointWorkerWorkerWithPolicy target_windows_amd64 osr_env_example 0x2000 1 5 =
     Some (Transitioned \<lparr>Ip = 0x5000, Sp = 0x6FF8, Fp = 0x7040, Ssp = 0, OtherRegs = [3]\<rparr> 5) \<and>
   VirtualUnwindToFirstManagedCallFrame target_windows_amd64 osr_env_example
     (CapturedContext target_windows_amd64 osr_env_example) =
     Some (Inr (0x2000, \<lparr>Ip = 0x2000, Sp = 0x7000, Fp = 0x7040, Ssp = 0, OtherRegs = [2]\<rparr>)) \<and>
   (0x6FF8 :: 64 word) \<noteq> 0x7000 \<and>
   JIT_PatchpointWorkerWorkerWithPolicy target_linux_arm64 osr_env_example 0x2000 1 5 =
     Some (Transitioned \<lparr>Ip = 0x5000, Sp = 0x7000, Fp = 0x7200, Ssp = 0, OtherRegs = [3]\<rparr> 5) \<and>
   VirtualUnwindToFirstManagedCallFrame target_linux_arm64 osr_env_example
     (CapturedContext target_linux_arm64 osr_env_example) =
     Some (Inr (0x2000, \<lparr>Ip = 0x2000, Sp = 0x7000, Fp = 0x7040, Ssp = 0, OtherRegs = [2]\<rparr>)) \<and>
   (0x7200 :: 64 word) \<noteq> 0x7040"
  using osr_example_amd64 osr_example_arm64 osr_example_frame_amd64 osr_example_frame_arm64
  by simp

text \<open>
  Claim C8, amended: whenever the helper transitions, the context it enters the optimized
  code with is the one obtained by unwinding from the original method's frame to its
  caller, with the program counter set to the (non-null) OSR entry point the policy
  returned, the stack pointer set to the value captured from the original method's frame
  (minus 8 on AMD64), and, on AMD64 only, the frame pointer set to the captured value; on
  Windows AMD64 a non-zero shadow stack pointer is lowered by 8. Every other register is
  as the unwind to the caller left it.
\<close>

theorem osr_transition_registers:
  assumes "JIT_PatchpointWorkerWorkerWithPolicy tgt env ip counter lastError =
             Some (Transitioned ctx e)"
  shows "\<exists>pc frame code.
           VirtualUnwindToFirstManagedCallFrame tgt env (CapturedContext tgt env) =
             Some (Inr (pc, frame)) \<and>
           (if counter = 0 then PatchpointRequiredPolicy_result env
            else PatchpointOptimizationPolicy_result env) = PolicyReturns code \<and>
           code \<noteq> 0 \<and>
           Ip ctx = code \<and>
           Sp ctx = (if TARGET_AMD64 tgt then Sp frame - 8 else Sp frame) \<and>
           Fp ctx = (if TARGET_AMD64 tgt then Fp frame else Fp (RtlVirtualUnwind env frame)) \<and>
           Ssp ctx =
             (if TARGET_AMD64 tgt \<and> TARGET_WINDOWS tgt \<and> Ssp (RtlVirtualUnwind env frame) \<noteq> 0
              then Ssp (RtlVirtualUnwind env frame) - 8 else Ssp (RtlVirtualUnwind env frame)) \<and>
           OtherRegs ctx = OtherRegs (RtlVirtualUnwind env frame)"
proof -
  from JIT_Transitioned [OF assms] obtain code where
    pol: "(if counter = 0 then PatchpointRequiredPolicy_result env
            else PatchpointOptimizationPolicy_result env) = PolicyReturns code"
    and nz: "code \<noteq> 0"
    and tr: "PatchpointTransition tgt env ip code lastError (LastError_after env Call_Policy lastError)
            = Some (Transitioned ctx e)"
    by blast
  from PatchpointTransition_Transitioned [OF tr] obtain pc frame where
    vu: "VirtualUnwindToFirstManagedCallFrame tgt env (CapturedContext tgt env) =
             Some (Inr (pc, frame))"
    and ctx: "ctx = (let ctx2 = RtlVirtualUnwind env frame;
                      ctx3 = (if TARGET_AMD64 tgt \<and> TARGET_WINDOWS tgt \<and> Ssp ctx2 \<noteq> 0
                           then ctx2\<lparr>Ssp := Ssp ctx2 - 8\<rparr> else ctx2);
                      ctx4 = (if TARGET_AMD64 tgt then ctx3\<lparr>Fp := Fp frame\<rparr> else ctx3)
                  in ctx4\<lparr>Sp := (if TARGET_AMD64 tgt then Sp frame - 8 else Sp frame), Ip := code\<rparr>)"
    by blast
  have "Ip ctx = code \<and>
           Sp ctx = (if TARGET_AMD64 tgt then Sp frame - 8 else Sp frame) \<and>
           Fp ctx = (if TARGET_AMD64 tgt then Fp frame else Fp (RtlVirtualUnwind env frame)) \<and>
           Ssp ctx =
             (if TARGET_AMD64 tgt \<and> TARGET_WINDOWS tgt \<and> Ssp (RtlVirtualUnwind env frame) \<noteq> 0
              then Ssp (RtlVirtualUnwind env frame) - 8 else Ssp (RtlVirtualUnwind env frame)) \<and>
           OtherRegs ctx = OtherRegs (RtlVirtualUnwind env frame)"
    by (simp add: ctx Let_def)
  with pol nz vu show ?thesis by blast
qed

theorem osr_transition_registers_witness:
  "\<exists>pc frame.
     VirtualUnwindToFirstManagedCallFrame target_windows_amd64 osr_env_example
       (CapturedContext target_windows_amd64 osr_env_example) = Some (Inr (pc, frame)) \<and>
     Sp frame - 8 = 0x6FF8 \<and> Fp frame = 0x7040"
  using osr_transition_registers [OF osr_example_amd64]
  by (auto simp: target_windows_amd64_def)

text \<open>
  Claim C10: the helper saves the thread's last error on entry and restores it on both
  exits. Whatever the calls in between leave as the last error, an invocation that
  returns normally, and one that transfers control to the optimized code, leaves the
  last error it was entered with.
\<close>

theorem last_error_preserved:
  assumes "JIT_PatchpointWorkerWorkerWithPolicy tgt env ip counter lastError = Some out"
      and "exit_LastError out = Some e"
  shows "e = lastError"
proof (cases out)
  case (Returned x)
  with assms show ?thesis
    by (auto simp: JIT_PatchpointWorkerWorkerWithPolicy_def Let_def SetLastError_def
          exit_LastError_def PatchpointTransition_def
        split: policy_result.splits if_splits option.splits sum.splits prod.splits)
next
  case (Transitioned c x)
  with assms have "JIT_PatchpointWorkerWorkerWithPolicy tgt env ip counter lastError =
             Some (Transitioned c e)" by (simp add: exit_LastError_def)
  from JIT_Transitioned [OF this] PatchpointTransition_Transitioned show ?thesis by blast
qed (use assms in \<open>simp_all add: exit_LastError_def\<close>)

theorem last_error_preserved_witness:
  "LastError_after osr_env_example Call_Policy 5 = 122 \<and>
   JIT_PatchpointWorkerWorkerWithPolicy target_linux_arm64 osr_env_example 0x2000 1 5 =
     Some (Transitioned \<lparr>Ip = 0x5000, Sp = 0x7000, Fp = 0x7200, Ssp = 0, OtherRegs = [3]\<rparr> 5) \<and>
   exit_LastError
     (Transitioned \<lparr>Ip = 0x5000, Sp = 0x7000, Fp = 0x7200, Ssp = 0, OtherRegs = [3]\<rparr> 5) = Some 5"
proof -
  have a: "LastError_after osr_env_example Call_Policy 5 = 122"
    by (simp add: osr_env_example_def)
  have b: "exit_LastError
     (Transitioned \<lparr>Ip = 0x5000, Sp = 0x7000, Fp = 0x7200, Ssp = 0, OtherRegs = [3]\<rparr> 5) = Some 5"
    by (simp add: exit_LastError_def)
  from last_error_preserved [OF osr_example_arm64 b] a b osr_example_arm64 show ?thesis by simp
qed

section \<open>Properties of the patchpoint policies under concurrent hits\<close>

lemma flags_le_refl: "flags_le a a" by (simp add: flags_le_def)

lemma flags_le_trans: "flags_le a b \<Longrightarrow> flags_le b c \<Longrightarrow> flags_le a c"
  unfolding flags_le_def bit_eq_iff bit_or_iff by blast

lemma flags_le_or: "flags_le a (a OR x)"
  unfolding flags_le_def bit_eq_iff bit_or_iff by blast

lemma flags_le_or_mono: "flags_le a b \<Longrightarrow> flags_le (a OR x) (b OR x)"
  unfolding flags_le_def bit_eq_iff bit_or_iff by blast

lemma flags_le_mask: "flags_le a b \<Longrightarrow> a AND m = m \<Longrightarrow> b AND m = m"
  unfolding flags_le_def bit_eq_iff bit_or_iff bit_and_iff by blast

lemma or_mask_same: "(a OR m) AND m = (m::32 word)"
  unfolding bit_eq_iff bit_or_iff bit_and_iff by blast

lemma flags_le_other_bit:
  "flags_le n (F OR t) \<Longrightarrow> n AND i = i \<Longrightarrow> t AND i = 0 \<Longrightarrow> F AND i = (i::32 word)"
  by (simp add: flags_le_def bit_eq_iff bit_or_iff bit_and_iff) blast

lemma or_invalid_keeps: "a AND m = m \<Longrightarrow> (a OR x) AND m = (m::32 word)"
  unfolding bit_eq_iff bit_or_iff bit_and_iff by blast

lemma triggered_invalid_disjoint: "patchpoint_triggered AND patchpoint_invalid = 0"
  by (simp add: patchpoint_triggered_def patchpoint_invalid_def)

lemma thread_inv_mono:
  assumes "thread_inv pp th"
      and "flags_le (m_flags pp) (m_flags pp')"
      and "m_osrMethodCode pp' = m_osrMethodCode pp \<or> m_osrMethodCode pp = 0"
  shows "thread_inv pp' th"
  using assms
  by (auto simp: thread_inv_def split: pp_pc.splits policy_result.splits
           intro: flags_le_trans flags_le_or_mono)

lemmas step_simps = policy_step_def thread_inv_def compiling_def policy_returns_def
            policy_fatal_def Let_def flags_le_or flags_le_refl or_mask_same

lemma policy_step_flags:
  assumes "policy_step cfg jit pp th = (pp', th')" and "thread_inv pp th"
  shows "flags_le (m_flags pp) (m_flags pp')"
  using assms by (cases "point th") (auto simp: step_simps split: if_splits)

lemma policy_step_code:
  assumes "policy_step cfg jit pp th = (pp', th')"
  shows "m_osrMethodCode pp' = m_osrMethodCode pp \<or>
         (compiling (point th) \<and> \<not> compiling (point th'))"
  using assms by (cases "point th") (auto simp: step_simps split: if_splits)

lemma policy_step_enter:
  assumes "policy_step cfg jit pp th = (pp', th')" and "thread_inv pp th"
      and "compiling (point th')" and "\<not> compiling (point th)"
  shows "m_flags pp AND patchpoint_triggered \<noteq> patchpoint_triggered \<and>
         m_flags pp' AND patchpoint_triggered = patchpoint_triggered \<and>
         m_osrMethodCode pp' = m_osrMethodCode pp"
  using assms by (cases "point th") (auto simp: step_simps split: if_splits)

lemma policy_step_stay:
  assumes "policy_step cfg jit pp th = (pp', th')"
      and "compiling (point th')" and "compiling (point th)"
  shows "pp' = pp"
  using assms by (cases "point th") (auto simp: step_simps split: if_splits)

lemma policy_step_thread_inv:
  assumes "policy_step cfg jit pp th = (pp', th')" and "thread_inv pp th"
      and "compiling (point th) \<longrightarrow> m_osrMethodCode pp = 0"
  shows "thread_inv pp' th'"
  using assms by (cases "point th")
    (auto simp: step_simps split: if_splits
          intro: flags_le_trans [OF _ flags_le_or] flags_le_or_mono)

lemma policy_step_invalid:
  assumes "policy_step cfg jit pp th = (pp', th')" and "thread_inv pp th"
      and "m_flags pp' AND patchpoint_invalid = patchpoint_invalid"
  shows "m_flags pp AND patchpoint_invalid = patchpoint_invalid \<or>
         (compiling (point th) \<and> \<not> compiling (point th'))"
  using assms by (cases "point th")
    (auto simp: step_simps split: if_splits
          dest: flags_le_other_bit [OF _ _ triggered_invalid_disjoint]
                flags_le_other_bit [OF flags_le_refl _ triggered_invalid_disjoint])

lemma osr_inv_initial: "osr_inv (osr_initial ppId)"
  by (simp add: osr_inv_def osr_initial_def idle_thread_def compiling_def thread_inv_def
        patchpoint_invalid_def)

lemma osr_inv_hit:
  assumes inv: "osr_inv s" and out: "outside_helper (point (threads s t))"
  shows "osr_inv (s\<lparr>threads := (threads s)
                  (t := (threads s t)\<lparr>mustFind := must,
                                        point := (if must then Req_Entry else Opt_Entry)\<rparr>)\<rparr>)"
  using inv unfolding osr_inv_def
  by (auto simp: compiling_def thread_inv_def)

lemma osr_inv_step:
  assumes inv: "osr_inv s" and st: "policy_step cfg jit (ppInfo s) (threads s t) = (pp', th')"
  shows "osr_inv (s\<lparr>ppInfo := pp', threads := (threads s)(t := th'), crashed := c\<rparr>)"
proof -
  let ?pp = "ppInfo s" and ?th = "threads s t"
  from inv have a: "\<And>u. compiling (point (threads s u)) \<Longrightarrow>
           m_flags ?pp AND patchpoint_triggered = patchpoint_triggered \<and> m_osrMethodCode ?pp = 0"
    and b: "\<And>u v. compiling (point (threads s u)) \<Longrightarrow> compiling (point (threads s v)) \<Longrightarrow> u = v"
    and ti: "\<And>u. thread_inv ?pp (threads s u)"
    and g: "m_osrMethodCode ?pp \<noteq> 0 \<Longrightarrow> m_flags ?pp AND patchpoint_triggered = patchpoint_triggered"
    and h: "m_flags ?pp AND patchpoint_invalid = patchpoint_invalid \<Longrightarrow>
              m_flags ?pp AND patchpoint_triggered = patchpoint_triggered \<and>
              m_osrMethodCode ?pp = 0 \<and> (\<forall>u. \<not> compiling (point (threads s u)))"
    unfolding osr_inv_def by blast+
  have fl: "flags_le (m_flags ?pp) (m_flags pp')" by (rule policy_step_flags [OF st ti])
  have code: "m_osrMethodCode pp' = m_osrMethodCode ?pp \<or>
         (compiling (point ?th) \<and> \<not> compiling (point th'))" by (rule policy_step_code [OF st])
  have trig_mono: "m_flags ?pp AND patchpoint_triggered = patchpoint_triggered \<Longrightarrow>
                   m_flags pp' AND patchpoint_triggered = patchpoint_triggered"
    by (rule flags_le_mask [OF fl])
  have code0: "m_osrMethodCode pp' = m_osrMethodCode ?pp \<or> m_osrMethodCode ?pp = 0"
    using code a by blast
  have new_t: "compiling (point th') \<Longrightarrow>
          m_flags pp' AND patchpoint_triggered = patchpoint_triggered \<and> m_osrMethodCode pp' = 0"
  proof -
    assume c': "compiling (point th')"
    show ?thesis
    proof (cases "compiling (point ?th)")
      case True
      with policy_step_stay [OF st c'] a show ?thesis by simp
    next
      case False
      from policy_step_enter [OF st ti c' False]
      have e: "m_flags ?pp AND patchpoint_triggered \<noteq> patchpoint_triggered"
        and e': "m_flags pp' AND patchpoint_triggered = patchpoint_triggered"
        and e'': "m_osrMethodCode pp' = m_osrMethodCode ?pp" by blast+
      from g e have "m_osrMethodCode ?pp = 0" by blast
      with e' e'' show ?thesis by simp
    qed
  qed
  have others: "\<And>u. u \<noteq> t \<Longrightarrow> compiling (point (threads s u)) \<Longrightarrow>
          m_flags pp' AND patchpoint_triggered = patchpoint_triggered \<and> m_osrMethodCode pp' = 0
          \<and> \<not> compiling (point th')"
  proof -
    fix u assume ut: "u \<noteq> t" and cu: "compiling (point (threads s u))"
    have nt: "\<not> compiling (point ?th)" using b [OF cu] ut by blast
    have "\<not> compiling (point th')"
      using policy_step_enter [OF st ti _ nt] a [OF cu] by blast
    moreover have "m_osrMethodCode pp' = 0" using code nt a [OF cu] by auto
    ultimately show "m_flags pp' AND patchpoint_triggered = patchpoint_triggered \<and> m_osrMethodCode pp' = 0
          \<and> \<not> compiling (point th')" using trig_mono a [OF cu] by blast
  qed
  have A: "\<forall>u. compiling (point (((threads s)(t := th')) u)) \<longrightarrow>
           m_flags pp' AND patchpoint_triggered = patchpoint_triggered \<and> m_osrMethodCode pp' = 0"
  proof (intro allI impI)
    fix u assume cu: "compiling (point (((threads s)(t := th')) u))"
    show "m_flags pp' AND patchpoint_triggered = patchpoint_triggered \<and> m_osrMethodCode pp' = 0"
    proof (cases "u = t")
      case True
      with cu new_t show ?thesis by simp
    next
      case False
      with cu others [of u] show ?thesis by simp
    qed
  qed
  have B: "\<forall>u v. compiling (point (((threads s)(t := th')) u)) \<and>
                  compiling (point (((threads s)(t := th')) v)) \<longrightarrow> u = v"
  proof (intro allI impI)
    fix u v
    assume cuv: "compiling (point (((threads s)(t := th')) u)) \<and>
                 compiling (point (((threads s)(t := th')) v))"
    show "u = v"
    proof (cases "u = t")
      case ut: True
      show ?thesis
      proof (cases "v = t")
        case True
        with ut show ?thesis by simp
      next
        case False
        with cuv ut others [of v] show ?thesis by simp
      qed
    next
      case ut: False
      show ?thesis
      proof (cases "v = t")
        case True
        with cuv ut others [of u] show ?thesis by simp
      next
        case False
        with cuv ut b [of u v] show ?thesis by simp
      qed
    qed
  qed
  have C: "\<forall>u. thread_inv pp' (((threads s)(t := th')) u)"
  proof
    fix u show "thread_inv pp' (((threads s)(t := th')) u)"
    proof (cases "u = t")
      case True
      then show ?thesis using policy_step_thread_inv [OF st ti] a by auto
    next
      case False
      then show ?thesis using thread_inv_mono [OF ti fl code0] by simp
    qed
  qed
  have G: "m_osrMethodCode pp' \<noteq> 0 \<longrightarrow> m_flags pp' AND patchpoint_triggered = patchpoint_triggered"
  proof
    assume nz: "m_osrMethodCode pp' \<noteq> 0"
    from code show "m_flags pp' AND patchpoint_triggered = patchpoint_triggered"
    proof
      assume "m_osrMethodCode pp' = m_osrMethodCode ?pp"
      with nz g trig_mono show ?thesis by simp
    next
      assume "compiling (point ?th) \<and> \<not> compiling (point th')"
      with a [of t] trig_mono show ?thesis by blast
    qed
  qed
  have H: "m_flags pp' AND patchpoint_invalid = patchpoint_invalid \<longrightarrow>
        m_flags pp' AND patchpoint_triggered = patchpoint_triggered \<and>
        m_osrMethodCode pp' = 0 \<and>
        (\<forall>u. \<not> compiling (point (((threads s)(t := th')) u)))"
  proof
    assume i': "m_flags pp' AND patchpoint_invalid = patchpoint_invalid"
    show "m_flags pp' AND patchpoint_triggered = patchpoint_triggered \<and>
        m_osrMethodCode pp' = 0 \<and>
        (\<forall>u. \<not> compiling (point (((threads s)(t := th')) u)))"
    proof (cases "m_flags ?pp AND patchpoint_invalid = patchpoint_invalid")
      case True
      from h [OF True] have tr: "m_flags ?pp AND patchpoint_triggered = patchpoint_triggered"
        and c0: "m_osrMethodCode ?pp = 0" and nc: "\<And>u. \<not> compiling (point (threads s u))"
        by blast+
      have "\<not> compiling (point th')"
        using policy_step_enter [OF st ti _ nc] tr by blast
      moreover have "m_osrMethodCode pp' = 0" using code nc c0 by auto
      ultimately show ?thesis using trig_mono [OF tr] nc by auto
    next
      case False
      with policy_step_invalid [OF st ti i']
      have lv: "compiling (point ?th) \<and> \<not> compiling (point th')" by blast
      then have tr: "m_flags ?pp AND patchpoint_triggered = patchpoint_triggered"
        and c0: "m_osrMethodCode ?pp = 0" using a by blast+
      have nc: "\<And>u. u \<noteq> t \<Longrightarrow> \<not> compiling (point (threads s u))" using b lv by blast
      have "m_osrMethodCode pp' = 0"
        using st lv i' c0 False
        by (cases "point ?th") (auto simp: step_simps split: if_splits)
      then show ?thesis using trig_mono [OF tr] nc lv by auto
    qed
  qed
  have sel: "ppInfo (s\<lparr>ppInfo := pp', threads := (threads s)(t := th'), crashed := c\<rparr>) = pp'"
    "threads (s\<lparr>ppInfo := pp', threads := (threads s)(t := th'), crashed := c\<rparr>) =
       (threads s)(t := th')"
    by simp_all
  from A B C G H show ?thesis unfolding osr_inv_def sel
    by (intro conjI) assumption+
qed

lemma osr_inv_apply: "osr_inv s \<Longrightarrow> osr_inv (osr_apply cfg s a)"
proof (cases a)
  case (Hit t must)
  assume "osr_inv s"
  then show ?thesis using Hit osr_inv_hit [of s t must]
    by (simp add: osr_apply_def)
next
  case (Step t jit)
  assume inv: "osr_inv s"
  obtain pp' th' where st: "policy_step cfg jit (ppInfo s) (threads s t) = (pp', th')"
    by (cases "policy_step cfg jit (ppInfo s) (threads s t)")
  show ?thesis using Step st inv osr_inv_step [OF inv st]
    by (simp add: osr_apply_def)
qed

lemma osr_inv_run: "osr_inv s \<Longrightarrow> osr_inv (osr_run cfg acts s)"
  unfolding osr_run_def
  by (induction acts arbitrary: s) (simp_all add: osr_inv_apply)

lemma osr_apply_invalid:
  assumes inv: "osr_inv s"
      and i: "m_flags (ppInfo s) AND patchpoint_invalid = patchpoint_invalid"
  shows "m_flags (ppInfo (osr_apply cfg s a)) AND patchpoint_invalid = patchpoint_invalid"
proof (cases a)
  case (Hit t must)
  with i show ?thesis by (simp add: osr_apply_def)
next
  case (Step t jit)
  obtain pp' th' where st: "policy_step cfg jit (ppInfo s) (threads s t) = (pp', th')"
    by (cases "policy_step cfg jit (ppInfo s) (threads s t)")
  from inv have "thread_inv (ppInfo s) (threads s t)" by (simp add: osr_inv_def)
  from flags_le_mask [OF policy_step_flags [OF st this] i] Step st i
  show ?thesis by (simp add: osr_apply_def)
qed

lemma osr_apply_after_invalid:
  assumes i: "m_flags (ppInfo s) AND patchpoint_invalid = patchpoint_invalid"
      and out: "outside_helper (point th0)"
      and t: "threads s t = th0 \<or> after_invalid_hit (threads s t)"
  shows "threads (osr_apply cfg s a) t = th0 \<or> after_invalid_hit (threads (osr_apply cfg s a) t)"
proof (cases a)
  case (Hit u must)
  with t out show ?thesis
    by (auto simp: osr_apply_def after_invalid_hit_def outside_helper_def)
next
  case (Step u jit)
  show ?thesis
  proof (cases "u = t \<and> \<not> crashed s")
    case False
    with Step t show ?thesis by (auto simp: osr_apply_def split: prod.splits)
  next
    case True
    from t show ?thesis
    proof
      assume eq: "threads s t = th0"
      with out have "policy_step cfg jit (ppInfo s) (threads s t) = (ppInfo s, th0)"
        by (cases "point th0") (simp_all add: policy_step_def outside_helper_def)
      with True Step eq show ?thesis by (simp add: osr_apply_def)
    next
      assume aih: "after_invalid_hit (threads s t)"
      obtain pp' th' where st: "policy_step cfg jit (ppInfo s) (threads s t) = (pp', th')"
        by (cases "policy_step cfg jit (ppInfo s) (threads s t)")
      have "after_invalid_hit th'"
        using aih i st
        by (cases "point (threads s t)")
           (auto simp: after_invalid_hit_def policy_step_def policy_returns_def policy_fatal_def)
      with True Step st show ?thesis by (simp add: osr_apply_def)
    qed
  qed
qed

lemma osr_run_after_invalid:
  assumes "osr_inv s"
      and "m_flags (ppInfo s) AND patchpoint_invalid = patchpoint_invalid"
      and "outside_helper (point th0)"
      and "threads s t = th0 \<or> after_invalid_hit (threads s t)"
  shows "m_flags (ppInfo (osr_run cfg acts s)) AND patchpoint_invalid = patchpoint_invalid \<and>
         (threads (osr_run cfg acts s) t = th0 \<or> after_invalid_hit (threads (osr_run cfg acts s) t))"
  using assms
proof (induction acts arbitrary: s)
  case Nil
  then show ?case by (simp add: osr_run_def)
next
  case (Cons a acts)
  have "osr_run cfg (a # acts) s = osr_run cfg acts (osr_apply cfg s a)"
    by (simp add: osr_run_def)
  moreover have "osr_inv (osr_apply cfg s a)" using Cons.prems(1) by (rule osr_inv_apply)
  moreover have "m_flags (ppInfo (osr_apply cfg s a)) AND patchpoint_invalid = patchpoint_invalid"
    using Cons.prems(1,2) by (rule osr_apply_invalid)
  moreover have "threads (osr_apply cfg s a) t = th0 \<or> after_invalid_hit (threads (osr_apply cfg s a) t)"
    using Cons.prems(2,3,4) by (rule osr_apply_after_invalid)
  ultimately show ?case using Cons.IH Cons.prems(3) by simp
qed

lemma osr_inv_results:
  assumes "osr_inv s" and "point (threads s t) = PolicyDone (PolicyReturns c)" and "c \<noteq> 0"
  shows "c = m_osrMethodCode (ppInfo s)"
proof -
  from assms(1) have "thread_inv (ppInfo s) (threads s t)" by (simp add: osr_inv_def)
  with assms(2,3) show ?thesis by (simp add: thread_inv_def)
qed

lemma osr_inv_invalid_code:
  assumes "osr_inv s" and "m_flags (ppInfo s) AND patchpoint_invalid = patchpoint_invalid"
  shows "m_osrMethodCode (ppInfo s) = 0"
  using assms by (simp add: osr_inv_def)

lemma worker_returns_on_null:
  assumes "counter \<noteq> 0" and "PatchpointOptimizationPolicy_result env = PolicyReturns 0"
  shows "JIT_PatchpointWorkerWorkerWithPolicy tgt env ip counter le = Some (Returned le)"
  using assms by (simp add: JIT_PatchpointWorkerWorkerWithPolicy_def SetLastError_def)

lemma worker_fatal_on_fatal:
  assumes "counter = 0" and "PatchpointRequiredPolicy_result env = PolicyFatal"
  shows "JIT_PatchpointWorkerWorkerWithPolicy tgt env ip counter le = Some FatalError"
  using assms by (simp add: JIT_PatchpointWorkerWorkerWithPolicy_def)

text \<open>
  Claim C7: once \<open>patchpoint_invalid\<close> is set in a reachable state, it stays set however
  the run continues, and a thread that was outside the helper at that moment is, at any
  later moment, either untouched or in a hit that can only end one way: under the
  optimizing policy it is on one of the first two steps (each of which moves on, the second
  to a return of \<open>NULL\<close>) or has returned \<open>NULL\<close>, on which the helper returns normally
  without a transition; under the required policy it is on the first step (which is
  fatal) or has terminated the process. No policy invocation of that thread holds a
  non-null code address.
\<close>
theorem invalid_patchpoint_is_final:
  assumes reach: "s = osr_run cfg acts (osr_initial ppId)"
      and i: "m_flags (ppInfo s) AND patchpoint_invalid = patchpoint_invalid"
      and out: "outside_helper (point (threads s t))"
      and later: "s' = osr_run cfg acts' s"
  shows "m_flags (ppInfo s') AND patchpoint_invalid = patchpoint_invalid \<and>
         (threads s' t = threads s t \<or> after_invalid_hit (threads s' t)) \<and>
         (\<forall>c. point (threads s' t) = PolicyDone (PolicyReturns c) \<longrightarrow> c = 0) \<and>
         (\<forall>jit. \<not> crashed s' \<and> point (threads s' t) = Opt_Entry \<longrightarrow>
            point (threads (osr_apply cfg s' (Step t jit)) t) = Opt_CheckInvalid) \<and>
         (\<forall>jit. \<not> crashed s' \<and> point (threads s' t) = Opt_CheckInvalid \<longrightarrow>
            point (threads (osr_apply cfg s' (Step t jit)) t) = PolicyDone (PolicyReturns 0)) \<and>
         (\<forall>jit. \<not> crashed s' \<and> point (threads s' t) = Req_Entry \<longrightarrow>
            point (threads (osr_apply cfg s' (Step t jit)) t) = PolicyDone PolicyFatal \<and>
            crashed (osr_apply cfg s' (Step t jit))) \<and>
         (\<forall>tgt env ip counter le.
            counter \<noteq> 0 \<and> PatchpointOptimizationPolicy_result env = PolicyReturns 0 \<longrightarrow>
            JIT_PatchpointWorkerWorkerWithPolicy tgt env ip counter le = Some (Returned le)) \<and>
         (\<forall>tgt env ip counter le.
            counter = 0 \<and> PatchpointRequiredPolicy_result env = PolicyFatal \<longrightarrow>
            JIT_PatchpointWorkerWorkerWithPolicy tgt env ip counter le = Some FatalError)"
proof -
  have inv: "osr_inv s" unfolding reach by (rule osr_inv_run [OF osr_inv_initial])
  have inv': "osr_inv s'" unfolding later by (rule osr_inv_run [OF inv])
  from osr_run_after_invalid [OF inv i out, of t cfg acts']
  have i': "m_flags (ppInfo s') AND patchpoint_invalid = patchpoint_invalid"
    and t': "threads s' t = threads s t \<or> after_invalid_hit (threads s' t)"
    unfolding later by simp_all
  have c0: "\<forall>c. point (threads s' t) = PolicyDone (PolicyReturns c) \<longrightarrow> c = 0"
    using osr_inv_results [OF inv'] osr_inv_invalid_code [OF inv' i'] by metis
  have p1: "\<forall>jit. \<not> crashed s' \<and> point (threads s' t) = Opt_Entry \<longrightarrow>
            point (threads (osr_apply cfg s' (Step t jit)) t) = Opt_CheckInvalid"
    by (simp add: osr_apply_def policy_step_def)
  have p2: "\<forall>jit. \<not> crashed s' \<and> point (threads s' t) = Opt_CheckInvalid \<longrightarrow>
            point (threads (osr_apply cfg s' (Step t jit)) t) = PolicyDone (PolicyReturns 0)"
    using i' by (simp add: osr_apply_def policy_step_def policy_returns_def)
  have p3: "\<forall>jit. \<not> crashed s' \<and> point (threads s' t) = Req_Entry \<longrightarrow>
            point (threads (osr_apply cfg s' (Step t jit)) t) = PolicyDone PolicyFatal \<and>
            crashed (osr_apply cfg s' (Step t jit))"
    using i' by (simp add: osr_apply_def policy_step_def policy_fatal_def)
  from i' t' c0 p1 p2 p3 worker_returns_on_null worker_fatal_on_fatal show ?thesis
    by (intro conjI allI impI) (assumption | blast)+
qed

lemmas osr_eval_simps = osr_run_def osr_apply_def policy_step_def policy_returns_def
  policy_fatal_def osr_initial_def idle_thread_def outside_helper_def osr_config_example_def
  patchpoint_triggered_def patchpoint_invalid_def Let_def

























theorem invalid_patchpoint_is_final_witness:
  "m_flags (ppInfo (osr_run osr_config_example schedule_thread0_fails (osr_initial 7)))
      AND patchpoint_invalid = patchpoint_invalid \<and>
   outside_helper
     (point (threads (osr_run osr_config_example schedule_thread0_fails (osr_initial 7)) 1)) \<and>
   point (threads (osr_run osr_config_example schedule_thread1_hits
            (osr_run osr_config_example schedule_thread0_fails (osr_initial 7))) 1) =
     PolicyDone (PolicyReturns 0) \<and>
   m_flags (ppInfo (osr_run osr_config_example schedule_thread1_hits
            (osr_run osr_config_example schedule_thread0_fails (osr_initial 7))))
      AND patchpoint_invalid = patchpoint_invalid"
proof -
  let ?s = "osr_run osr_config_example schedule_thread0_fails (osr_initial 7)"
  have i: "m_flags (ppInfo ?s) AND patchpoint_invalid = patchpoint_invalid"
    by (simp add: osr_eval_simps schedule_thread0_fails_def)
  have out: "outside_helper (point (threads ?s 1))"
    by (simp add: osr_eval_simps schedule_thread0_fails_def)
  have p: "point (threads (osr_run osr_config_example schedule_thread1_hits ?s) 1) =
     PolicyDone (PolicyReturns 0)"
    by (simp add: osr_eval_simps schedule_thread0_fails_def schedule_thread1_hits_def)
  from invalid_patchpoint_is_final [OF refl i out refl, of schedule_thread1_hits] i out p
  show ?thesis by simp
qed

section \<open>Properties of the stack walker\<close>

subsection \<open>What one advance of the iterator does\<close>












lemmas ex_defs = example_MethodDesc_def example_code_def example_no_code_def example_regs_def
  example_Frame_def example_env_def example_memory_def example_build_def example_storage_def
  example_position_def

lemmas walk_defs = StackFrameIterator_ctor_def CommonCtor_def CrawlFrame_ctor_def
  ResetGCRefReportingState_def Init_def ResetCrawlFrame_def ProcessIp_def
  ProcessCurrentFrame_def CheckGSCookies_def IsValid_def CheckForSkippedFrames_def
  PreProcessingForManagedFrames_def SetCurGSCookie_def Filter_def Filter_begin_def
  ProcessFuncletsForGCReporting_body_def Filter_frameless_rest_def IsFunclet_def
  StackFrame_Null_def StackFrame_IsNull_def StackFrame_IsMaxVal_def FRAME_TOP_def
  Filter_FrameNotUnwound_def Filter_SkipFrameDueToUnwind_def Filter_other_states_def
  pFunc_IsILStub_def NextRaw_def NextRaw_PostProcessing_def NextRaw_ProcessCurrentFrame_def
  PostProcessingForManagedFrames_def CheckUnwoundStackPointer_def FAIL_IF_SPECULATIVE_WALK_def
  GotoNextFrame_def

lemma CheckGSCookies_exit:
  "CheckGSCookies env mem cf = Inl e \<Longrightarrow> e = JITFailFast"
  by (auto simp: CheckGSCookies_def split: if_splits)





lemma ResetGCRefReportingState_log [simp]:
  "m_log (ResetGCRefReportingState b it) = m_log it"
  by (simp add: ResetGCRefReportingState_def Let_def)



lemma ReachedParentOfNonFilterFunclet_log [simp]:
  "m_log (ReachedParentOfNonFilterFunclet env it) = m_log it"
  by (simp add: ReachedParentOfNonFilterFunclet_def Let_def split: prod.splits option.splits if_splits)


















lemmas ex_defs2 = ex_defs example_visit_def example_callback_def example_callback_abort_def
  example_callback_smash_def

lemmas walk_defs2 = walk_defs StackWalkFramesEx_def MakeStackwalkerCallback_def Next_def

lemmas loop_simps = StackWalkFramesEx_loop.simps Filter_loop.simps Filter_frameless.simps
  CheckForSkippedFrames_loop.simps

lemma position_after_valid:
  "position_after bld env cb k iter0 d0 mem0 = Some (iter, d, mem) \<Longrightarrow> IsValid iter"
proof (induction k arbitrary: iter0 d0 mem0)
  case 0
  then show ?case by (auto split: if_splits)
next
  case (Suc k)
  from Suc.prems obtain iter1 d1 mem1 where
    "position_after bld env cb k iter1 d1 mem1 = Some (iter, d, mem)"
    by (auto split: if_splits sum.splits option.splits prod.splits)
  then show ?case by (rule Suc.IH)
qed

lemma position_after_loop:
  "position_after bld env cb k iter0 d0 mem0 = Some (iter, d, mem) \<Longrightarrow>
   \<exists>rv. StackWalkFramesEx_loop bld env cb iter0 d0 mem0 rv0 =
        StackWalkFramesEx_loop bld env cb iter d mem rv"
proof (induction k arbitrary: iter0 d0 mem0 rv0)
  case 0
  then show ?case by (auto split: if_splits)
next
  case (Suc k)
  from Suc.prems have v: "IsValid iter0" by (auto split: if_splits)
  from Suc.prems v obtain swa d1 mem1 where
    m: "MakeStackwalkerCallback env (m_crawl iter0) cb d0 mem0 = Inr (swa, d1, mem1)"
    by (cases "MakeStackwalkerCallback env (m_crawl iter0) cb d0 mem0") auto
  from Suc.prems v m have na: "swa \<noteq> SWA_ABORT" by (auto split: if_splits)
  from Suc.prems v m na obtain rv1 iter1 where
    n: "Next bld env mem1 iter0 = Some (Inr (rv1, iter1))"
    by (cases "Next bld env mem1 iter0") (auto split: sum.splits)
  from Suc.prems v m na n have nf: "rv1 \<noteq> SWA_FAILED" by (auto split: if_splits)
  from Suc.prems v m na n nf have p: "position_after bld env cb k iter1 d1 mem1 = Some (iter, d, mem)"
    by simp
  have "StackWalkFramesEx_loop bld env cb iter0 d0 mem0 rv0 =
        StackWalkFramesEx_loop bld env cb iter1 d1 mem1 rv1"
    by (subst StackWalkFramesEx_loop.simps) (simp add: v m na n nf)
  with Suc.IH [OF p, of rv1] show ?case by simp
qed

lemmas ex_defs3 = ex_defs2 example_env_unwind_fails_def

subsection \<open>The callback aborts the walk\<close>

text \<open>
  Claim C2, amended: let a walk driven by \<open>StackWalkFramesEx\<close> arrive at a surfaced
  position after \<open>k\<close> earlier ones, let the GS cookie check before the callback pass, and
  let the callback return \<open>SWA_ABORT\<close> there. Then the walk ends at once: it returns
  \<open>SWA_ABORT\<close> (not \<open>SWA_FAILED\<close>) with the iterator still at that position and with
  the callback's data and the memory exactly as that invocation left them, so no later
  position is visited and the callback is not invoked again. The one exception is the GS
  cookie check that follows the callback: if it fails, the process is terminated inside
  the walk and nothing is returned.
\<close>
theorem abort_stops_the_walk:
  assumes "Init bld env mem0 pStartFrame pRD_arg flags (StackFrameIterator_ctor {} storage) =
             Some (Inr (True, iter0))"
      and "position_after bld env pCallback k iter0 pData0 mem0 = Some (iter, pData, mem)"
      and "CheckGSCookies env mem (m_crawl iter) = Inr ()"
      and "pCallback (m_crawl iter) pData mem = (SWA_ABORT, pData', mem')"
  shows "StackWalkFramesEx bld env storage mem0 pRD_arg pCallback pData0 flags pStartFrame =
           (if CheckGSCookies env mem' (m_crawl iter) = Inr ()
            then Some (Inr (SWA_ABORT, iter, pData', mem'))
            else Some (Inl JITFailFast))"
proof -
  from position_after_loop [OF assms(2), of SWA_FAILED] obtain rv where
    l: "StackWalkFramesEx_loop bld env pCallback iter0 pData0 mem0 SWA_FAILED =
        StackWalkFramesEx_loop bld env pCallback iter pData mem rv" ..
  have v: "IsValid iter" by (rule position_after_valid [OF assms(2)])
  have "StackWalkFramesEx_loop bld env pCallback iter pData mem rv =
           (if CheckGSCookies env mem' (m_crawl iter) = Inr ()
            then Some (Inr (SWA_ABORT, iter, pData', mem'))
            else Some (Inl JITFailFast))"
  proof (cases "CheckGSCookies env mem' (m_crawl iter)")
    case (Inl e)
    from CheckGSCookies_exit [OF Inl] Inl show ?thesis
      by (subst StackWalkFramesEx_loop.simps)
         (simp add: v MakeStackwalkerCallback_def assms(3,4))
  next
    case (Inr u)
    then show ?thesis
      by (subst StackWalkFramesEx_loop.simps)
         (simp add: v MakeStackwalkerCallback_def assms(3,4))
  qed
  with l assms(1) show ?thesis by (simp add: StackWalkFramesEx_def)
qed

text \<open>
  The example walk with a callback that aborts at method 2: the second position is where
  the walk ends, with the two positions recorded.
\<close>
theorem abort_stops_the_walk_witness:
  "\<exists>iter. StackWalkFramesEx example_build example_env example_storage example_memory
            (example_regs 0x1000 0x7000) (example_callback_abort 2) [] {} 0 =
          Some (Inr (SWA_ABORT, iter, [(1, True), (2, True)], example_memory))"
proof -
  have "\<exists>iter0. Init example_build example_env example_memory 0 (example_regs 0x1000 0x7000) {}
                  (StackFrameIterator_ctor {} example_storage) = Some (Inr (True, iter0)) \<and>
          (\<exists>iter. position_after example_build example_env (example_callback_abort 2) 1 iter0 []
                    example_memory = Some (iter, [(1, True)], example_memory) \<and>
                  CheckGSCookies example_env example_memory (m_crawl iter) = Inr () \<and>
                  example_callback_abort 2 (m_crawl iter) [(1, True)] example_memory =
                    (SWA_ABORT, [(1, True), (2, True)], example_memory))"
    by (simp add: walk_defs2 ex_defs3 Let_def loop_simps)
  then obtain iter0 iter where
    i: "Init example_build example_env example_memory 0 (example_regs 0x1000 0x7000) {}
                  (StackFrameIterator_ctor {} example_storage) = Some (Inr (True, iter0))"
    and p: "position_after example_build example_env (example_callback_abort 2) 1 iter0 []
                    example_memory = Some (iter, [(1, True)], example_memory)"
    and g: "CheckGSCookies example_env example_memory (m_crawl iter) = Inr ()"
    and c: "example_callback_abort 2 (m_crawl iter) [(1, True)] example_memory =
                    (SWA_ABORT, [(1, True), (2, True)], example_memory)"
    by blast
  from abort_stops_the_walk [OF i p g c] g show ?thesis by auto
qed

text \<open>
  Claim C2 as stated has the walk return the abort outcome whenever the callback returns
  \<open>SWA_ABORT\<close>. In the example walk the callback returns \<open>SWA_ABORT\<close> at the first
  position after overwriting the GS cookie of that frame: \<open>MakeStackwalkerCallback\<close>
  checks the cookies after the callback and fails fast, and the walk returns nothing.
\<close>
theorem abort_with_corrupted_cookie:
  "(case Init example_build example_env example_memory 0 (example_regs 0x1000 0x7000) {}
           (StackFrameIterator_ctor {} example_storage) of
      Some (Inr (ok, iter)) \<Rightarrow>
        ok \<and> IsValid iter \<and>
        fst (example_callback_smash 1 (m_crawl iter) [] example_memory) = SWA_ABORT \<and>
        StackWalkFramesEx_loop example_build example_env (example_callback_smash 1) iter []
          example_memory SWA_FAILED = Some (Inl JITFailFast)
    | _ \<Rightarrow> False) \<and>
   StackWalkFramesEx example_build example_env example_storage example_memory
     (example_regs 0x1000 0x7000) (example_callback_smash 1) [] {} 0 = Some (Inl JITFailFast)"
  by (simp add: walk_defs2 ex_defs3 Let_def loop_simps)

subsection \<open>The GS cookie checks\<close>




subsection \<open>A failed unwind fails the walk\<close>



subsection \<open>The bounds check on the unwound stack pointer\<close>




subsection \<open>Advancing from a frameless method\<close>




end
